theory Spec2Isabelle
  imports Complex_Main "HOL-Library.AList"
begin

section \<open>Structured extraction orchestrator (StructuredResponseTool)\<close>

text \<open>
  A shallow embedding of \<^verbatim>\<open>StructuredResponseTool\<close>
  (worker/src/ai-toolbox/llm/structuredResponseTool.js).

  JavaScript values are the JSON-like data the tool handles. An object is the list of its
  own enumerable properties, in the order in which they were created (JavaScript
  enumerates integer-like keys before the others; the order of the keys matters to none of
  the properties below); a string is the list of its code units.
\<close>

datatype jsval =
    JUndefined
  | JNull
  | JBool bool
  | JNum int
  | JStr string
  | JArr "jsval list"
  | JObj "(string \<times> jsval) list"

type_synonym jsobj = "(string \<times> jsval) list"

subsection \<open>JavaScript operators used by the tool\<close>

text \<open>Decimal rendering of a non-negative integer, as a template literal prints it.\<close>

definition digit_char :: "nat \<Rightarrow> char" where
  "digit_char d = char_of (48 + d)"

fun string_of_nat :: "nat \<Rightarrow> string" where
  "string_of_nat n =
     (if n < 10 then [digit_char n] else string_of_nat (n div 10) @ [digit_char (n mod 10)])"

declare string_of_nat.simps [simp del]

text \<open>Truthiness (\<^verbatim>\<open>!x\<close> is its negation), \<^verbatim>\<open>typeof\<close> and
  \<^verbatim>\<open>Array.isArray\<close>.\<close>

fun truthy :: "jsval \<Rightarrow> bool" where
  "truthy JUndefined = False"
| "truthy JNull = False"
| "truthy (JBool b) = b"
| "truthy (JNum n) = (n \<noteq> 0)"
| "truthy (JStr s) = (s \<noteq> [])"
| "truthy (JArr xs) = True"
| "truthy (JObj ps) = True"

fun typeof :: "jsval \<Rightarrow> string" where
  "typeof JUndefined = ''undefined''"
| "typeof JNull = ''object''"
| "typeof (JBool b) = ''boolean''"
| "typeof (JNum n) = ''number''"
| "typeof (JStr s) = ''string''"
| "typeof (JArr xs) = ''object''"
| "typeof (JObj ps) = ''object''"

fun isArray :: "jsval \<Rightarrow> bool" where
  "isArray (JArr xs) = True"
| "isArray v = False"

fun array_elements :: "jsval \<Rightarrow> jsval list" where
  "array_elements (JArr xs) = xs"
| "array_elements v = []"

definition is_nullish :: "jsval \<Rightarrow> bool" where
  "is_nullish v = (v = JUndefined \<or> v = JNull)"

text \<open>
  The own enumerable properties of a value, in enumeration order: what the spread
  \<^verbatim>\<open>{ ...v }\<close> copies and what \<^verbatim>\<open>for (const key in v)\<close> visits (no built-in
  prototype has an enumerable property). An array and a string have their indices;
  \<^verbatim>\<open>undefined\<close>, \<^verbatim>\<open>null\<close>, numbers and booleans have none.
\<close>

fun own_props :: "jsval \<Rightarrow> jsobj" where
  "own_props (JObj ps) = ps"
| "own_props (JArr xs) = zip (map string_of_nat [0 ..< length xs]) xs"
| "own_props (JStr s) = zip (map string_of_nat [0 ..< length s]) (map (\<lambda>c. JStr [c]) s)"
| "own_props v = []"

text \<open>
  Own properties only: \<open>has_own\<close> is \<^verbatim>\<open>Object.hasOwn(obj, key)\<close>, \<open>own_value\<close> the
  value of an own property (\<^verbatim>\<open>undefined\<close> when there is none), and \<open>own_set\<close>
  defines an own property, as an object literal and a spread do: an existing key keeps its
  place, a new key goes last. These are not the operators \<^verbatim>\<open>in\<close> and
  \<^verbatim>\<open>obj[key]\<close>, which also see the prototype chain; those follow below.
\<close>

definition has_own :: "jsobj \<Rightarrow> string \<Rightarrow> bool" where
  "has_own ps key = (map_of ps key \<noteq> None)"

definition own_value :: "jsobj \<Rightarrow> string \<Rightarrow> jsval" where
  "own_value ps key = (case map_of ps key of None \<Rightarrow> JUndefined | Some v \<Rightarrow> v)"

definition own_set :: "jsobj \<Rightarrow> string \<Rightarrow> jsval \<Rightarrow> jsobj" where
  "own_set ps key v = AList.update key v ps"

text \<open>\<^verbatim>\<open>{ ...a, ...b }\<close>: the properties of \<open>b\<close> are defined over a copy of \<open>a\<close>.\<close>

definition spread_over :: "jsobj \<Rightarrow> jsobj \<Rightarrow> jsobj" where
  "spread_over a b = foldl (\<lambda>acc (key, v). own_set acc key v) a b"

text \<open>
  The property names that the tool reads with a literal name (\<^verbatim>\<open>response?.response\<close>,
  \<^verbatim>\<open>response.status\<close>, \<^verbatim>\<open>"properties" in jsonSchema\<close>, ...). None of them is
  a member of a built-in prototype or the \<^verbatim>\<open>length\<close> of an array or a string, so
  for these names a read or an \<^verbatim>\<open>in\<close> test sees the own properties only, and a read
  of a primitive or of a nullish value through \<^verbatim>\<open>?.\<close> gives \<^verbatim>\<open>undefined\<close>.
\<close>

datatype property =
    P_response | P_status | P_responses | P_success | P_result | P_error
  | P_type | P_properties | P_schema

fun property_name :: "property \<Rightarrow> string" where
  "property_name P_response = ''response''"
| "property_name P_status = ''status''"
| "property_name P_responses = ''responses''"
| "property_name P_success = ''success''"
| "property_name P_result = ''result''"
| "property_name P_error = ''error''"
| "property_name P_type = ''type''"
| "property_name P_properties = ''properties''"
| "property_name P_schema = ''$schema''"

definition get_prop :: "jsval \<Rightarrow> property \<Rightarrow> jsval" where
  "get_prop v p = own_value (own_props v) (property_name p)"

definition has_prop :: "jsval \<Rightarrow> property \<Rightarrow> bool" where
  "has_prop v p = has_own (own_props v) (property_name p)"

subsection \<open>Objects the tool assigns into: the prototype chain\<close>

text \<open>
  \<^verbatim>\<open>fullResponse\<close> (in fillMissingFields) and \<^verbatim>\<open>mergedResults\<close> (in
  chunkAndMerge) are read, tested with \<^verbatim>\<open>in\<close> and assigned with a key that comes
  from the data, so the members they inherit matter. Both start with the prototype
  \<^verbatim>\<open>Object.prototype\<close>, whose property names are the following; all are methods but
  \<^verbatim>\<open>__proto__\<close>, an accessor that reads and replaces the prototype of the object it
  is used on.
\<close>

definition object_prototype_keys :: "string list" where
  "object_prototype_keys =
     [''constructor'', ''__defineGetter__'', ''__defineSetter__'', ''hasOwnProperty'',
      ''__lookupGetter__'', ''__lookupSetter__'', ''isPrototypeOf'', ''propertyIsEnumerable'',
      ''toString'', ''valueOf'', ''__proto__'', ''toLocaleString'']"

text \<open>The string-keyed members of \<^verbatim>\<open>Array.prototype\<close> (ECMAScript 2023), which an
  object inherits once an array has become its prototype.\<close>

definition array_prototype_keys :: "string list" where
  "array_prototype_keys =
     [''length'', ''constructor'', ''at'', ''concat'', ''copyWithin'', ''fill'', ''find'',
      ''findIndex'', ''findLast'', ''findLastIndex'', ''lastIndexOf'', ''pop'', ''push'',
      ''reverse'', ''shift'', ''unshift'', ''slice'', ''sort'', ''splice'', ''includes'',
      ''indexOf'', ''join'', ''keys'', ''entries'', ''values'', ''forEach'', ''filter'',
      ''flat'', ''flatMap'', ''map'', ''every'', ''some'', ''reduce'', ''reduceRight'',
      ''toReversed'', ''toSorted'', ''toSpliced'', ''with'', ''toLocaleString'', ''toString'']"

text \<open>
  The prototype of such an object: the built-in one, none (after
  \<^verbatim>\<open>obj.__proto__ = null\<close>), or an array or object of the data that an assignment to
  \<^verbatim>\<open>__proto__\<close> has put there.
\<close>

datatype prototype = ObjectPrototype | NullPrototype | Inherits jsval

record object =
  props :: jsobj
  proto :: prototype

definition new_object :: "jsobj \<Rightarrow> object" where
  "new_object ps = \<lparr>props = ps, proto = ObjectPrototype\<rparr>"

text \<open>What a walk up the chain finds first under a key: nothing, a data property with
  a value of the data, a built-in method, or the \<^verbatim>\<open>__proto__\<close> accessor.\<close>

datatype member = Absent | Data jsval | Builtin string | ProtoAccessor

definition builtin_member :: "bool \<Rightarrow> string \<Rightarrow> member" where
  "builtin_member of_array key =
     (if of_array \<and> key \<in> set array_prototype_keys then Builtin key
      else if key = ''__proto__'' then ProtoAccessor
      else if key \<in> set object_prototype_keys then Builtin key
      else Absent)"

text \<open>The own properties of an array include its \<^verbatim>\<open>length\<close>, which is not
  enumerable.\<close>

fun own_data :: "jsval \<Rightarrow> jsobj" where
  "own_data (JArr xs) = own_props (JArr xs) @ [(''length'', JNum (int (length xs)))]"
| "own_data v = own_props v"

fun inherited :: "prototype \<Rightarrow> string \<Rightarrow> member" where
  "inherited ObjectPrototype key = builtin_member False key"
| "inherited NullPrototype key = Absent"
| "inherited (Inherits v) key =
     (case map_of (own_data v) key of
        Some x \<Rightarrow> Data x
      | None \<Rightarrow> builtin_member (isArray v) key)"

definition lookup :: "object \<Rightarrow> string \<Rightarrow> member" where
  "lookup obj key =
     (case map_of (props obj) key of
        Some x \<Rightarrow> Data x
      | None \<Rightarrow> inherited (proto obj) key)"

text \<open>\<^verbatim>\<open>key in obj\<close>.\<close>

definition js_in :: "string \<Rightarrow> object \<Rightarrow> bool" where
  "js_in key obj = (lookup obj key \<noteq> Absent)"

text \<open>
  \<^verbatim>\<open>obj[key]\<close>: a value of the data, a built-in function, or
  \<^verbatim>\<open>Object.prototype\<close> itself (what \<^verbatim>\<open>obj.__proto__\<close> reads while the
  prototype is the built-in one).
\<close>

datatype got = Value jsval | BuiltinFunction string | BuiltinPrototype

definition js_get :: "object \<Rightarrow> string \<Rightarrow> got" where
  "js_get obj key =
     (case lookup obj key of
        Absent \<Rightarrow> Value JUndefined
      | Data x \<Rightarrow> Value x
      | Builtin name \<Rightarrow> BuiltinFunction name
      | ProtoAccessor \<Rightarrow>
          (case proto obj of Inherits v \<Rightarrow> Value v | _ \<Rightarrow> BuiltinPrototype))"

text \<open>
  \<^verbatim>\<open>obj[key] = v\<close>: an own property is overwritten; the inherited accessor
  \<^verbatim>\<open>__proto__\<close> replaces the prototype when \<open>v\<close> is an object or \<^verbatim>\<open>null\<close>
  and does nothing otherwise; in every other case (no such property, or an inherited method
  or data property, all of which are writable) a new own property is made.
\<close>

definition js_set :: "object \<Rightarrow> string \<Rightarrow> jsval \<Rightarrow> object" where
  "js_set obj key v =
     (if has_own (props obj) key then obj\<lparr>props := own_set (props obj) key v\<rparr>
      else if inherited (proto obj) key = ProtoAccessor then
        (if v = JNull then obj\<lparr>proto := NullPrototype\<rparr>
         else if typeof v = ''object'' then obj\<lparr>proto := Inherits v\<rparr>
         else obj)
      else obj\<lparr>props := own_set (props obj) key v\<rparr>)"

text \<open>The tests that chunkAndMerge makes on a value it has read, and the spreads of it.\<close>

fun got_isArray :: "got \<Rightarrow> bool" where
  "got_isArray (Value v) = isArray v"
| "got_isArray g = False"

fun got_typeof :: "got \<Rightarrow> string" where
  "got_typeof (Value v) = typeof v"
| "got_typeof (BuiltinFunction name) = ''function''"
| "got_typeof BuiltinPrototype = ''object''"

fun got_elements :: "got \<Rightarrow> jsval list" where
  "got_elements (Value v) = array_elements v"
| "got_elements g = []"

fun got_props :: "got \<Rightarrow> jsobj" where
  "got_props (Value v) = own_props v"
| "got_props g = []"

subsection \<open>Thrown values\<close>

text \<open>
  Every catch handler of the tool makes its message from the caught value \<open>e\<close> with
  \<^verbatim>\<open>e?.errors ? JSON.stringify(e.errors) : e?.message || String(e)\<close>, printed
  in a template literal. A thrown value is modelled by what these parts give:
  \<^item> \<open>thrown_errors\<close>: \<open>None\<close> when \<^verbatim>\<open>e?.errors\<close> is falsy, otherwise what
    \<^verbatim>\<open>JSON.stringify(e.errors)\<close> prints as (a validation error of the schema
    library carries its issues there);
  \<^item> \<open>thrown_message\<close>: \<open>None\<close> when \<^verbatim>\<open>e?.message\<close> is falsy, otherwise what it
    prints as;
  \<^item> \<open>thrown_string\<close>: \<^verbatim>\<open>String(e)\<close>.
  Each of the three conversions yields a text or throws in turn (a cyclic \<^verbatim>\<open>errors\<close>,
  an object that cannot be converted to a string).
\<close>

datatype thrown =
  Thrown (thrown_errors: "rendering option") (thrown_message: "rendering option")
    (thrown_string: rendering)
and rendering = Text string | Raises thrown

text \<open>\<^verbatim>\<open>new Error(msg)\<close> and a TypeError of the runtime; the wording of the
  runtime's message differs between engines, and the text here stands for it.\<close>

definition new_Error :: "string \<Rightarrow> thrown" where
  "new_Error msg =
     Thrown None (if msg = [] then None else Some (Text msg))
       (Text (if msg = [] then ''Error'' else ''Error: '' @ msg))"

definition type_error :: "string \<Rightarrow> thrown" where
  "type_error msg = Thrown None (Some (Text msg)) (Text (''TypeError: '' @ msg))"

text \<open>Reading a property of \<^verbatim>\<open>null\<close> or \<^verbatim>\<open>undefined\<close>.\<close>

definition read_of_nullish :: "jsval \<Rightarrow> string \<Rightarrow> thrown" where
  "read_of_nullish v name =
     type_error (''Cannot read properties of '' @ (if v = JNull then ''null'' else ''undefined'')
       @ '' (reading '' @ name @ '')'')"

definition error_message :: "thrown \<Rightarrow> rendering" where
  "error_message e =
     (case thrown_errors e of
        Some j \<Rightarrow> j
      | None \<Rightarrow>
          (case thrown_message e of
             Some m \<Rightarrow> m
           | None \<Rightarrow> thrown_string e))"

subsection \<open>Schemas and fillMissingFields\<close>

text \<open>
  The schema is an object of the schema library (zod), which is not part of the
  repository; the tool uses three things of it, which the model takes as they are:
  \<^item> \<open>shape\<close>: \<^verbatim>\<open>schema.shape\<close>, the declared fields in enumeration order, each with
    its descriptor; the whole is \<open>None\<close> when the schema has no \<^verbatim>\<open>shape\<close> property
    (a union schema);
  \<^item> \<open>parse\<close>: \<^verbatim>\<open>schema.parse(value)\<close>, which returns the validated value or throws;
  \<^item> \<open>toJsonSchema\<close>: the result of
    \<^verbatim>\<open>zodToJsonSchema(schema, { $refStrategy: "none", errorMessages: true })\<close>.

  Of a field's descriptor the tool reads \<^verbatim>\<open>zodType._def?.typeName\<close>: \<open>NoType\<close> is a
  descriptor that is \<^verbatim>\<open>null\<close> or \<^verbatim>\<open>undefined\<close> (reading \<^verbatim>\<open>_def\<close> of it
  throws a TypeError), \<open>ZodType n\<close> one whose type name is \<open>n\<close> (\<open>None\<close> when
  \<^verbatim>\<open>_def\<close> or the name is missing).
\<close>

datatype zod_type = NoType | ZodType "string option"

record schema =
  shape :: "(string \<times> zod_type) list option"
  parse :: "jsval \<Rightarrow> thrown + jsval"
  toJsonSchema :: "thrown + jsval"

definition default_for :: "string option \<Rightarrow> jsval" where
  "default_for typeName =
     (if typeName = Some ''ZodArray'' then JArr []
      else if typeName = Some ''ZodObject'' then JObj []
      else if typeName = Some ''ZodString'' then JStr []
      else if typeName = Some ''ZodNumber'' then JNum 0
      else if typeName = Some ''ZodBoolean'' then JBool False
      else JNull)"

text \<open>The condition of the \<^verbatim>\<open>if\<close> in the loop.\<close>

definition field_missing :: "object \<Rightarrow> string \<Rightarrow> bool" where
  "field_missing fullResponse key =
     (\<not> js_in key fullResponse \<or> js_get fullResponse key = Value JUndefined)"

text \<open>
  The loop \<^verbatim>\<open>for (const key in properties)\<close>: the object \<^verbatim>\<open>fullResponse\<close> as the
  loop leaves it, and what the loop throws, if it does.
\<close>

fun fill_loop :: "object \<Rightarrow> (string \<times> zod_type) list \<Rightarrow> object \<times> thrown option" where
  "fill_loop fullResponse [] = (fullResponse, None)"
| "fill_loop fullResponse ((key, zodType) # rest) =
     (if field_missing fullResponse key then
        (case zodType of
           NoType \<Rightarrow>
             (fullResponse,
              Some (read_of_nullish JUndefined ''_def''))
         | ZodType typeName \<Rightarrow> fill_loop (js_set fullResponse key (default_for typeName)) rest)
      else fill_loop fullResponse rest)"

definition shape_keys :: "schema \<Rightarrow> (string \<times> zod_type) list" where
  "shape_keys sch = (case shape sch of None \<Rightarrow> [] | Some properties \<Rightarrow> properties)"

definition fill_defaults :: "schema \<Rightarrow> jsval \<Rightarrow> jsobj" where
  "fill_defaults sch aiResponse =
     props (fst (fill_loop (new_object (own_props aiResponse)) (shape_keys sch)))"

definition fillMissingFields :: "schema \<Rightarrow> jsval \<Rightarrow> thrown + jsval" where
  "fillMissingFields sch aiResponse =
     (case snd (fill_loop (new_object (own_props aiResponse)) (shape_keys sch)) of
        Some e \<Rightarrow> Inl e
      | None \<Rightarrow> parse sch (JObj (fill_defaults sch aiResponse)))"

subsection \<open>fillMissingFields on a store\<close>

text \<open>
  The same function with the objects it touches in a store, to tell the candidate from
  its copy: the store is the list of allocated objects (each with the built-in prototype)
  and an address is an index into it. \<^verbatim>\<open>const fullResponse = { ...aiResponse }\<close>
  allocates a new object with the candidate's properties, and every
  \<^verbatim>\<open>fullResponse[key] = ...\<close> writes to that one.
\<close>

type_synonym store = "jsobj list"

definition store_alloc :: "store \<Rightarrow> jsobj \<Rightarrow> nat \<times> store" where
  "store_alloc st ps = (length st, st @ [ps])"

definition store_write :: "store \<Rightarrow> nat \<Rightarrow> string \<Rightarrow> jsval \<Rightarrow> store" where
  "store_write st a key v = st[a := props (js_set (new_object (st ! a)) key v)]"

fun fill_loop_at :: "nat \<Rightarrow> store \<Rightarrow> (string \<times> zod_type) list \<Rightarrow> store \<times> thrown option" where
  "fill_loop_at fullResponse st [] = (st, None)"
| "fill_loop_at fullResponse st ((key, zodType) # rest) =
     (if field_missing (new_object (st ! fullResponse)) key then
        (case zodType of
           NoType \<Rightarrow>
             (st, Some (read_of_nullish JUndefined ''_def''))
         | ZodType typeName \<Rightarrow>
             fill_loop_at fullResponse (store_write st fullResponse key (default_for typeName))
               rest)
      else fill_loop_at fullResponse st rest)"

definition fillMissingFields_at :: "schema \<Rightarrow> nat \<Rightarrow> store \<Rightarrow> (thrown + jsval) \<times> store" where
  "fillMissingFields_at sch aiResponse st =
     (case store_alloc st (st ! aiResponse) of
        (fullResponse, st1) \<Rightarrow>
          (case fill_loop_at fullResponse st1 (shape_keys sch) of
             (st2, Some e) \<Rightarrow> (Inl e, st2)
           | (st2, None) \<Rightarrow> (parse sch (JObj (st2 ! fullResponse)), st2)))"

subsection \<open>Chunking (the first loop of chunkAndMerge)\<close>

text \<open>\<^verbatim>\<open>String.prototype.substring(start, end)\<close>: both indices are clamped to the
  length of the string and swapped when start exceeds end.\<close>

definition substring :: "string \<Rightarrow> nat \<Rightarrow> nat \<Rightarrow> string" where
  "substring s start end =
     (let a = min start (length s); b = min end (length s);
          lo = min a b; hi = max a b
      in take (hi - lo) (drop lo s))"

text \<open>
  \<^verbatim>\<open>for (let i = 0; i < fullText.length; i += chunkSize)
      textChunks.push(fullText.substring(i, i + chunkSize));\<close>
  The loop does not end when \<open>chunkSize = 0\<close> and the text is not empty, so it is a
  partial function: \<open>None\<close> is "does not return".
\<close>

partial_function (option) chunk_loop :: "nat \<Rightarrow> string \<Rightarrow> nat \<Rightarrow> string list \<Rightarrow> string list option" where
  "chunk_loop chunkSize fullText i textChunks =
     (if i < length fullText
      then chunk_loop chunkSize fullText (i + chunkSize)
             (textChunks @ [substring fullText i (i + chunkSize)])
      else Some textChunks)"

declare chunk_loop.simps [code]

definition split_chunks :: "nat \<Rightarrow> string \<Rightarrow> string list option" where
  "split_chunks chunkSize fullText = chunk_loop chunkSize fullText 0 []"

text \<open>The slices the split is expected to produce, for comparison: the \<open>k\<close>-th slice is
  the \<open>chunkSize\<close> characters from position \<open>k * chunkSize\<close>.\<close>

definition slices_from :: "nat \<Rightarrow> string \<Rightarrow> nat \<Rightarrow> nat \<Rightarrow> string list" where
  "slices_from chunkSize fullText k n =
     map (\<lambda>j. take chunkSize (drop (j * chunkSize) fullText)) [k ..< n]"

definition ceil_div :: "nat \<Rightarrow> nat \<Rightarrow> nat" where
  "ceil_div l c = (l + c - 1) div c"


subsection \<open>The backend and the result record\<close>

text \<open>
  \<^verbatim>\<open>env.AI.run(modelName, request)\<close> is the text-generation backend, outside the
  repository. A call either rejects with a thrown value or resolves to a response
  envelope. The backend may answer each call differently, so its answer is a function of
  the calls made before and of the call itself; the tool's state is the log of calls.
\<close>

datatype ai_request =
    ExtractRequest (req_model: string) (req_system: string) (req_user: string)
      (req_json_schema: jsval)
  | PollRequest (req_model: string) (req_id: string)

datatype ai_outcome = Rejects thrown | Resolves jsval

type_synonym log = "ai_request list"

text \<open>
  The tool instance: the field \<^verbatim>\<open>maxSmallContextChars\<close> (80000 in the class), the
  binding \<^verbatim>\<open>env.AI\<close>, and the four model identifiers imported from
  \<^verbatim>\<open>./models.js\<close>, which is not among the sources and is taken as given.
\<close>

record tool =
  maxSmallContextChars :: nat
  ai_run :: "log \<Rightarrow> ai_request \<Rightarrow> ai_outcome"
  Hermes2Pro :: string
  Llama3_3 :: string
  Llama4Scout :: string
  MistralSmall3_1 :: string

definition new_tool ::
  "(log \<Rightarrow> ai_request \<Rightarrow> ai_outcome) \<Rightarrow> string \<Rightarrow> string \<Rightarrow> string \<Rightarrow> string \<Rightarrow> tool" where
  "new_tool ai h l3 l4 m =
     \<lparr>maxSmallContextChars = 80000, ai_run = ai,
      Hermes2Pro = h, Llama3_3 = l3, Llama4Scout = l4, MistralSmall3_1 = m\<rparr>"

text \<open>
  The object every extraction path returns. A key that the object literal does not set is
  \<open>None\<close> (it reads as \<^verbatim>\<open>undefined\<close>).
\<close>

record extraction_result =
  success :: bool
  modelUsed :: string
  structuredResult :: jsval
  error :: "string option"
  isChunked :: "bool option"

text \<open>A template literal prints a missing string as \<^verbatim>\<open>undefined\<close>.\<close>

definition show_opt :: "string option \<Rightarrow> string" where
  "show_opt s = (case s of None \<Rightarrow> ''undefined'' | Some t \<Rightarrow> t)"

subsection \<open>executeModel\<close>

definition system_content :: string where
  "system_content = ''You are an AI assistant specialized in extracting structured data from text into a specified JSON format.''"

definition build_prompt :: "string \<Rightarrow> string" where
  "build_prompt textPayload =
     ''You are an AI assistant tasked with analyzing the following text and extracting information according to a specific JSON schema.\<newline>--- TEXT START ---\<newline>''
     @ textPayload @
     ''\<newline>--- TEXT END ---\<newline>Your response MUST be a single, valid JSON object that strictly adheres to the provided JSON schema. Do not include any explanatory text, markdown formatting, or anything else outside the JSON object itself. Respond with the JSON for the text provided above.''"

text \<open>\<^verbatim>\<open>if (jsonSchema && typeof jsonSchema === "object" && "$schema" in jsonSchema)
      delete jsonSchema.$schema;\<close>\<close>

definition strip_schema_marker :: "jsval \<Rightarrow> jsval" where
  "strip_schema_marker jsonSchema =
     (if truthy jsonSchema \<and> typeof jsonSchema = ''object'' \<and> has_prop jsonSchema P_schema
      then (case jsonSchema of
              JObj ps \<Rightarrow> JObj (AList.delete (property_name P_schema) ps)
            | v \<Rightarrow> v)
      else jsonSchema)"

text \<open>The condition under which the request is refused.\<close>

definition wire_schema_unusable :: "jsval \<Rightarrow> bool" where
  "wire_schema_unusable jsonSchema =
     (\<not> truthy jsonSchema
      \<or> typeof jsonSchema \<noteq> ''object''
      \<or> \<not> has_prop jsonSchema P_properties
      \<or> \<not> has_prop jsonSchema P_type
      \<or> get_prop jsonSchema P_type \<noteq> JStr ''object'')"

text \<open>The body of the \<^verbatim>\<open>try\<close> block: the validated response, or what is thrown.\<close>

definition executeModel_try ::
  "tool \<Rightarrow> string \<Rightarrow> string \<Rightarrow> schema \<Rightarrow> log \<Rightarrow> (thrown + jsval) \<times> log" where
  "executeModel_try t modelName textPayload sch lg =
     (let prompt = build_prompt textPayload in
      case toJsonSchema sch of
        Inl e \<Rightarrow> (Inl e, lg)
      | Inr js0 \<Rightarrow>
          (let jsonSchema = strip_schema_marker js0 in
           if wire_schema_unusable jsonSchema
           then (Inl (new_Error ''Failed to generate a valid JSON schema for the request.''), lg)
           else
             (let request = ExtractRequest modelName system_content prompt jsonSchema in
              case ai_run t lg request of
                Rejects e \<Rightarrow> (Inl e, lg @ [request])
              | Resolves response \<Rightarrow>
                  (let resultObject = get_prop response P_response in
                   if resultObject = JUndefined \<or> resultObject = JNull
                   then (Inl (new_Error (''Model '' @ modelName
                                 @ '' returned an empty or invalid response.'')),
                         lg @ [request])
                   else (fillMissingFields sch resultObject, lg @ [request])))))"

text \<open>
  The whole function. \<open>Inl\<close> is a rejection of the returned promise: the catch handler
  itself throws when the caught value cannot be printed.
\<close>

definition executeModel ::
  "tool \<Rightarrow> string \<Rightarrow> string \<Rightarrow> schema \<Rightarrow> bool \<Rightarrow> log \<Rightarrow> (thrown + extraction_result) \<times> log" where
  "executeModel t modelName textPayload sch isChunk lg =
     (case executeModel_try t modelName textPayload sch lg of
        (Inr validatedResponse, lg') \<Rightarrow>
          (Inr \<lparr>success = True, modelUsed = modelName, structuredResult = validatedResponse,
                error = None, isChunked = Some isChunk\<rparr>, lg')
      | (Inl err, lg') \<Rightarrow>
          (case error_message err of
             Raises e \<Rightarrow> (Inl e, lg')
           | Text errorMessage \<Rightarrow>
               (Inr \<lparr>success = False, modelUsed = modelName, structuredResult = JNull,
                     error = Some (''Model '' @ modelName @ '' failed: '' @ errorMessage),
                     isChunked = Some isChunk\<rparr>, lg')))"

subsection \<open>chunkAndMerge\<close>

text \<open>The body of \<^verbatim>\<open>for (const key in currentResult)\<close> for one key.\<close>

definition merge_field :: "object \<Rightarrow> string \<times> jsval \<Rightarrow> object" where
  "merge_field mergedResults p =
     (case p of (key, newValue) \<Rightarrow>
        (let existingValue = js_get mergedResults key in
         if isArray newValue then
           js_set mergedResults key
             (if got_isArray existingValue
              then JArr (got_elements existingValue @ array_elements newValue)
              else JArr (array_elements newValue))
         else if newValue \<noteq> JNull \<and> typeof newValue = ''object'' \<and> \<not> isArray newValue then
           js_set mergedResults key
             (if existingValue \<noteq> Value JNull \<and> got_typeof existingValue = ''object''
                 \<and> \<not> got_isArray existingValue
              then JObj (spread_over (got_props existingValue) (own_props newValue))
              else JObj (own_props newValue))
         else if newValue \<noteq> JNull \<and> newValue \<noteq> JUndefined then
           js_set mergedResults key newValue
         else if \<not> js_in key mergedResults then
           js_set mergedResults key newValue
         else mergedResults))"

definition merge_result :: "object \<Rightarrow> jsval \<Rightarrow> object" where
  "merge_result mergedResults currentResult =
     foldl merge_field mergedResults (own_props currentResult)"

text \<open>\<^verbatim>\<open>firstSuccessfulModel || modelName\<close> and \<^verbatim>\<open>!firstSuccessfulModel\<close>: the
  variable starts as \<^verbatim>\<open>null\<close> (\<open>None\<close>); an empty string is falsy too.\<close>

definition or_else :: "string option \<Rightarrow> string \<Rightarrow> string" where
  "or_else firstSuccessfulModel modelName =
     (case firstSuccessfulModel of
        None \<Rightarrow> modelName
      | Some m \<Rightarrow> if m = [] then modelName else m)"

text \<open>
  The \<^verbatim>\<open>try\<close>/\<^verbatim>\<open>catch\<close> after the loop. The spread in fillMissingFields copies
  the own properties of \<^verbatim>\<open>mergedResults\<close>.
\<close>

definition merge_final ::
  "schema \<Rightarrow> string \<Rightarrow> object \<Rightarrow> string option \<Rightarrow> thrown + extraction_result" where
  "merge_final sch modelName mergedResults firstSuccessfulModel =
     (case fillMissingFields sch (JObj (props mergedResults)) of
        Inr validatedFinal \<Rightarrow>
          Inr \<lparr>success = True, modelUsed = or_else firstSuccessfulModel modelName,
               structuredResult = validatedFinal, error = None, isChunked = Some True\<rparr>
      | Inl err \<Rightarrow>
          (case error_message err of
             Raises e \<Rightarrow> Inl e
           | Text errorMessage \<Rightarrow>
               Inr \<lparr>success = False, modelUsed = or_else firstSuccessfulModel modelName,
                    structuredResult = JNull,
                    error = Some (''Final validation after merging failed: '' @ errorMessage),
                    isChunked = Some True\<rparr>))"

text \<open>
  The second loop, \<^verbatim>\<open>for (let i = 0; i < textChunks.length; i++)\<close>: \<open>n_chunks\<close> is
  \<^verbatim>\<open>textChunks.length\<close> and the list is the chunks from index \<open>i\<close> on.
\<close>

fun chunk_run ::
  "tool \<Rightarrow> string \<Rightarrow> schema \<Rightarrow> nat \<Rightarrow> nat \<Rightarrow> string list \<Rightarrow> object \<Rightarrow> string option \<Rightarrow> log
     \<Rightarrow> (thrown + extraction_result) \<times> log" where
  "chunk_run t modelName sch n_chunks i [] mergedResults firstSuccessfulModel lg =
     (merge_final sch modelName mergedResults firstSuccessfulModel, lg)"
| "chunk_run t modelName sch n_chunks i (chunk # rest) mergedResults firstSuccessfulModel lg =
     (case executeModel t modelName chunk sch True lg of
        (Inl e, lg') \<Rightarrow> (Inl e, lg')
      | (Inr result, lg') \<Rightarrow>
          if \<not> success result \<or> \<not> truthy (structuredResult result)
          then (Inr \<lparr>success = False, modelUsed = modelName, structuredResult = JNull,
                      error = Some (''Chunking failure on chunk '' @ string_of_nat (i + 1)
                                @ ''/'' @ string_of_nat n_chunks @ '': ''
                                @ show_opt (error result)),
                      isChunked = Some True\<rparr>, lg')
          else chunk_run t modelName sch n_chunks (i + 1) rest
                 (merge_result mergedResults (structuredResult result))
                 (if or_else firstSuccessfulModel [] = []
                  then Some (modelUsed result) else firstSuccessfulModel)
                 lg')"

text \<open>\<open>None\<close>: the call does not return (the split loops forever).\<close>

definition chunkAndMerge ::
  "tool \<Rightarrow> string \<Rightarrow> string \<Rightarrow> schema \<Rightarrow> log \<Rightarrow> ((thrown + extraction_result) \<times> log) option" where
  "chunkAndMerge t modelName fullText sch lg =
     (case split_chunks (maxSmallContextChars t) fullText of
        None \<Rightarrow> None
      | Some textChunks \<Rightarrow>
          Some (chunk_run t modelName sch (length textChunks) 0 textChunks (new_object []) None
                  lg))"

subsection \<open>analyzeText\<close>

text \<open>
  \<^verbatim>\<open>result = await this.executeModel(m, textPayload, schema);
  if (result.success) return result;\<close>
  followed by the rest of the function: a rejection of the awaited call and a successful
  result both end the function; otherwise \<open>rest\<close> runs with the failed result.
\<close>

definition attempt ::
  "tool \<Rightarrow> string \<Rightarrow> string \<Rightarrow> schema \<Rightarrow> log
     \<Rightarrow> (extraction_result \<Rightarrow> log \<Rightarrow> ((thrown + extraction_result) \<times> log) option)
     \<Rightarrow> ((thrown + extraction_result) \<times> log) option" where
  "attempt t modelName textPayload sch lg rest =
     (case executeModel t modelName textPayload sch False lg of
        (Inl e, lg') \<Rightarrow> Some (Inl e, lg')
      | (Inr result, lg') \<Rightarrow>
          if success result then Some (Inr result, lg') else rest result lg')"

definition all_failed_message :: "tool \<Rightarrow> string option \<Rightarrow> string" where
  "all_failed_message t lastError =
     ''All models ('' @ Hermes2Pro t @ '', '' @ MistralSmall3_1 t @ '', '' @ Llama4Scout t
       @ '', '' @ Llama3_3 t
       @ '') failed to generate a valid structured response. Last error: ''
       @ show_opt lastError"

definition analyzeText ::
  "tool \<Rightarrow> schema \<Rightarrow> string \<Rightarrow> log \<Rightarrow> ((thrown + extraction_result) \<times> log) option" where
  "analyzeText t sch textPayload lg =
     (if textPayload = []
      then Some (Inl (new_Error ''Input textPayload cannot be empty for analyzeText.''), lg)
      else if length textPayload > maxSmallContextChars t then
        attempt t (Llama4Scout t) textPayload sch lg (\<lambda>r1 lg1.
        attempt t (MistralSmall3_1 t) textPayload sch lg1 (\<lambda>r2 lg2.
        chunkAndMerge t (Llama4Scout t) textPayload sch lg2))
      else
        attempt t (Hermes2Pro t) textPayload sch lg (\<lambda>r1 lg1.
        attempt t (MistralSmall3_1 t) textPayload sch lg1 (\<lambda>r2 lg2.
        attempt t (Llama4Scout t) textPayload sch lg2 (\<lambda>r3 lg3.
        attempt t (Llama3_3 t) textPayload sch lg3 (\<lambda>result lg4.
        Some (Inr \<lparr>success = False, modelUsed = Llama3_3 t, structuredResult = JNull,
                    error = Some (all_failed_message t (error result)),
                    isChunked = None\<rparr>, lg4))))))"

subsection \<open>pollBatchAnalysisStatus\<close>

text \<open>
  The callback of \<^verbatim>\<open>response.responses.map\<close>. Reading \<^verbatim>\<open>item.success\<close> of an item
  that is \<^verbatim>\<open>null\<close> or \<^verbatim>\<open>undefined\<close> throws a TypeError; the object literals
  define own properties over a copy of the item.
\<close>

definition failed_item :: "jsval \<Rightarrow> jsval \<Rightarrow> jsval" where
  "failed_item item errorMessage =
     JObj (own_set (own_set (own_set (own_props item) ''success'' (JBool False))
                      ''error'' errorMessage)
             ''result'' (JObj [(''response'', JObj [(''error'', errorMessage)])]))"

definition process_item :: "schema \<Rightarrow> jsval \<Rightarrow> thrown + jsval" where
  "process_item sch item =
     (if is_nullish item
      then Inl (read_of_nullish item ''success'')
      else if truthy (get_prop item P_success)
              \<and> truthy (get_prop (get_prop item P_result) P_response)
      then (case fillMissingFields sch (get_prop (get_prop item P_result) P_response) of
              Inr filled \<Rightarrow>
                Inr (JObj (own_set (own_props item) ''result'' (JObj [(''response'', filled)])))
            | Inl validationError \<Rightarrow>
                (case error_message validationError of
                   Raises e \<Rightarrow> Inl e
                 | Text msg \<Rightarrow>
                     Inr (failed_item item (JStr (''Schema validation failed: '' @ msg)))))
      else Inr (failed_item item
                  (if truthy (get_prop item P_error) then get_prop item P_error
                   else JStr ''AI processing failed or result structure invalid.'')))"

text \<open>\<^verbatim>\<open>Promise.all\<close> over the mapped items: the first rejection rejects the whole.\<close>

fun promise_all :: "(thrown + 'a) list \<Rightarrow> thrown + 'a list" where
  "promise_all [] = Inr []"
| "promise_all (Inl e # ps) = Inl e"
| "promise_all (Inr x # ps) = (case promise_all ps of Inl e \<Rightarrow> Inl e | Inr xs \<Rightarrow> Inr (x # xs))"

definition pollBatchAnalysisStatus ::
  "tool \<Rightarrow> string \<Rightarrow> string \<Rightarrow> schema \<Rightarrow> log \<Rightarrow> (thrown + jsval) \<times> log" where
  "pollBatchAnalysisStatus t modelName requestId sch lg =
     (if requestId = []
      then (Inl (new_Error ''Request ID is required to poll batch status.''), lg)
      else
        (let request = PollRequest modelName requestId in
         case ai_run t lg request of
           Rejects e \<Rightarrow> (Inl e, lg @ [request])
         | Resolves response \<Rightarrow>
             if is_nullish response
             then (Inl (read_of_nullish response ''status''),
                   lg @ [request])
             else if get_prop response P_status \<noteq> JStr ''completed''
             then (Inr response, lg @ [request])
             else if \<not> isArray (get_prop response P_responses)
             then (Inl (new_Error (''Completed batch analysis response for '' @ requestId
                           @ '' has invalid structure.'')), lg @ [request])
             else
               (case promise_all (map (process_item sch)
                                    (array_elements (get_prop response P_responses))) of
                  Inl e \<Rightarrow> (Inl e, lg @ [request])
                | Inr processedResponses \<Rightarrow>
                    (Inr (JObj (own_set (own_set (own_props response)
                                           ''responses'' (JArr processedResponses))
                                  ''status'' (JStr ''completed''))),
                     lg @ [request]))))"

subsection \<open>Scenarios\<close>

text \<open>
  The situation "each of these chunks, extracted in order with \<open>modelName\<close>, every one on
  the log left by the one before, gave a usable result": the results in chunk order and
  the log after the last one, or \<open>None\<close> when some chunk did not.
\<close>

fun all_extracted ::
  "tool \<Rightarrow> string \<Rightarrow> schema \<Rightarrow> string list \<Rightarrow> log \<Rightarrow> (extraction_result list \<times> log) option" where
  "all_extracted t modelName sch [] lg = Some ([], lg)"
| "all_extracted t modelName sch (chunk # rest) lg =
     (case executeModel t modelName chunk sch True lg of
        (Inl e, lg1) \<Rightarrow> None
      | (Inr result, lg1) \<Rightarrow>
          if success result \<and> truthy (structuredResult result)
          then (case all_extracted t modelName sch rest lg1 of
                  None \<Rightarrow> None
                | Some (results, lg2) \<Rightarrow> Some (result # results, lg2))
          else None)"

text \<open>The request that executeModel sends for a text, when the schema's rendering is
  usable.\<close>

definition request_of :: "schema \<Rightarrow> string \<Rightarrow> string \<Rightarrow> ai_request option" where
  "request_of sch modelName textPayload =
     (case toJsonSchema sch of
        Inl e \<Rightarrow> None
      | Inr js0 \<Rightarrow>
          if wire_schema_unusable (strip_schema_marker js0) then None
          else Some (ExtractRequest modelName system_content (build_prompt textPayload)
                       (strip_schema_marker js0)))"

subsection \<open>Concrete schemas and backends for examples\<close>

text \<open>
  A stand-in for the library's validation of an object schema whose fields are of the
  five kinds that fillMissingFields knows. The library reads each declared field with
  \<^verbatim>\<open>data[key]\<close>, so it sees inherited members too; a field passes when what is read
  is a value of the declared kind, unknown keys are dropped, and anything else is
  rejected with a list of issues.
\<close>

definition kind_ok :: "string option \<Rightarrow> got \<Rightarrow> bool" where
  "kind_ok typeName g =
     (case g of
        Value v \<Rightarrow>
          (if typeName = Some ''ZodArray'' then isArray v
           else if typeName = Some ''ZodObject'' then v \<noteq> JNull \<and> typeof v = ''object'' \<and> \<not> isArray v
           else if typeName = Some ''ZodString'' then typeof v = ''string''
           else if typeName = Some ''ZodNumber'' then typeof v = ''number''
           else if typeName = Some ''ZodBoolean'' then typeof v = ''boolean''
           else False)
      | _ \<Rightarrow> False)"

definition object_parse :: "(string \<times> string option) list \<Rightarrow> jsval \<Rightarrow> thrown + jsval" where
  "object_parse flds v =
     (if v \<noteq> JNull \<and> typeof v = ''object'' \<and> \<not> isArray v
         \<and> list_all (\<lambda>(key, typeName). kind_ok typeName (js_get (new_object (own_props v)) key)) flds
      then Inr (JObj (map (\<lambda>(key, typeName). (key, own_value (own_props v) key)) flds))
      else Inl (Thrown (Some (Text ''[{code:invalid_type}]'')) (Some (Text ''invalid_type''))
                  (Text ''ZodError'')))"

definition object_schema :: "(string \<times> string option) list \<Rightarrow> schema" where
  "object_schema flds =
     \<lparr>shape = Some (map (\<lambda>(key, typeName). (key, ZodType typeName)) flds),
      parse = object_parse flds,
      toJsonSchema = Inr (JObj [(''$schema'', JStr ''http://json-schema.org/draft-07/schema#''),
                                (''type'', JStr ''object''),
                                (''properties'', JObj (map (\<lambda>(key, typeName). (key, JObj [])) flds))])\<rparr>"

text \<open>The schema \<^verbatim>\<open>{ name: string, tags: array }\<close>, and a schema that declares a
  field named \<^verbatim>\<open>constructor\<close>.\<close>

definition name_tags_schema :: schema where
  "name_tags_schema = object_schema [(''name'', Some ''ZodString''), (''tags'', Some ''ZodArray'')]"

definition constructor_schema :: schema where
  "constructor_schema =
     object_schema [(''constructor'', Some ''ZodString''), (''name'', Some ''ZodString'')]"

text \<open>
  A union schema, as \<^verbatim>\<open>aiResponseSchema\<close> of the natural-language caller: it has no
  \<^verbatim>\<open>shape\<close>, it accepts what one of its members accepts, and it is rendered as
  \<^verbatim>\<open>{ anyOf: [...] }\<close>, with no \<^verbatim>\<open>type\<close> and no \<^verbatim>\<open>properties\<close>.
\<close>

definition union_schema :: "schema \<Rightarrow> schema \<Rightarrow> schema" where
  "union_schema a b =
     \<lparr>shape = None,
      parse = (\<lambda>v. case parse a v of Inr r \<Rightarrow> Inr r | Inl e \<Rightarrow> parse b v),
      toJsonSchema =
        (case (toJsonSchema a, toJsonSchema b) of
           (Inr ja, Inr jb) \<Rightarrow>
             Inr (JObj [(''$schema'', JStr ''http://json-schema.org/draft-07/schema#''),
                        (''anyOf'', JArr [strip_schema_marker ja, strip_schema_marker jb])])
         | (Inl e, _) \<Rightarrow> Inl e
         | (_, Inl e) \<Rightarrow> Inl e)\<rparr>"

definition command_schema :: schema where
  "command_schema =
     union_schema
       (object_schema [(''command'', Some ''ZodString''), (''reasoning'', Some ''ZodString'')])
       (object_schema [(''command'', Some ''ZodString''), (''question'', Some ''ZodString''),
                       (''reasoning'', Some ''ZodString'')])"

text \<open>Backends that answer from a fixed script: the \<open>n\<close>-th call gets the \<open>n\<close>-th answer,
  and a call beyond the script is rejected.\<close>

definition scripted :: "ai_outcome list \<Rightarrow> log \<Rightarrow> ai_request \<Rightarrow> ai_outcome" where
  "scripted answers lg request =
     (if length lg < length answers then answers ! length lg
      else Rejects (new_Error ''no answer''))"

definition test_tool :: "nat \<Rightarrow> ai_outcome list \<Rightarrow> tool" where
  "test_tool budget answers =
     \<lparr>maxSmallContextChars = budget, ai_run = scripted answers,
      Hermes2Pro = ''hermes'', Llama3_3 = ''llama33'', Llama4Scout = ''scout'',
      MistralSmall3_1 = ''mistral''\<rparr>"

definition envelope :: "jsval \<Rightarrow> ai_outcome" where
  "envelope payload = Resolves (JObj [(''response'', payload)])"

text \<open>The wire schema of \<open>name_tags_schema\<close> and the request that carries it.\<close>

definition name_tags_wire :: jsval where
  "name_tags_wire =
     JObj [(''type'', JStr ''object''),
           (''properties'', JObj [(''name'', JObj []), (''tags'', JObj [])])]"

definition name_tags_request :: "string \<Rightarrow> string \<Rightarrow> ai_request" where
  "name_tags_request modelName textPayload =
     ExtractRequest modelName system_content (build_prompt textPayload) name_tags_wire"

text \<open>A value that cannot be converted to a string, such as an object without a
  prototype: \<^verbatim>\<open>String(e)\<close> throws a TypeError.\<close>

definition unprintable :: thrown where
  "unprintable = Thrown None None (Raises (type_error ''Cannot convert object to primitive value''))"

text \<open>A run of chunkAndMerge with a budget of 3 characters: the first chunk is extracted,
  the backend returns an empty payload for the second.\<close>

definition failing_second_chunk :: tool where
  "failing_second_chunk =
     test_tool 3 [envelope (JObj [(''tags'', JArr [JStr ''a''])]), envelope JNull,
                  envelope (JObj [(''name'', JStr ''n'')])]"

section \<open>Properties\<close>

subsection \<open>The chunk split\<close>

lemma substring_chunk: "i \<le> length s \<Longrightarrow> substring s i (i + c) = take c (drop i s)"
  by (auto simp: substring_def Let_def min_def max_def)

lemma lt_ceil_div: "0 < c \<Longrightarrow> k < ceil_div l c \<longleftrightarrow> k * c < l"
proof -
  assume c: "0 < c"
  have "k < (l + c - 1) div c \<longleftrightarrow> (k + 1) * c \<le> l + c - 1"
    using c by (metis Suc_eq_plus1 less_eq_Suc_le less_eq_div_iff_mult_less_eq)
  also have "\<dots> \<longleftrightarrow> k * c < l" using c by (cases c) auto
  finally show ?thesis by (simp add: ceil_div_def)
qed

lemma ceil_div_covers: "0 < c \<Longrightarrow> l \<le> ceil_div l c * c"
  using lt_ceil_div[of c "ceil_div l c" l] by (simp add: not_less)

lemma ceil_div_ceiling: "0 < c \<Longrightarrow> ceil_div l c = nat \<lceil>real l / real c\<rceil>"
proof -
  assume c: "0 < c"
  let ?n = "ceil_div l c"
  have le: "l \<le> ?n * c" by (rule ceil_div_covers [OF c])
  show ?thesis
  proof (cases "l = 0")
    case True
    then show ?thesis using c by (simp add: ceil_div_def)
  next
    case False
    then have n: "0 < ?n" using le by (cases ?n) auto
    then have lt: "(?n - 1) * c < l" using lt_ceil_div [OF c, of "?n - 1" l] by simp
    have "real l / real c \<le> real ?n"
      using le c by (simp add: divide_le_eq flip: of_nat_mult)
    moreover have "real ?n - 1 < real l / real c"
    proof -
      have "real ((?n - 1) * c) < real l" using lt by (simp only: of_nat_less_iff)
      then have "real (?n - 1) < real l / real c" using c by (simp add: less_divide_eq)
      then show ?thesis using n by (simp add: of_nat_diff)
    qed
    ultimately have "\<lceil>real l / real c\<rceil> = int ?n"
      by (intro ceiling_unique) auto
    then show ?thesis by simp
  qed
qed

lemma slices_from_step:
  "k < n \<Longrightarrow> slices_from c t k n = take c (drop (k * c) t) # slices_from c t (Suc k) n"
  by (simp add: slices_from_def upt_conv_Cons)

lemma chunk_loop_slices:
  assumes c: "0 < c"
  shows "k \<le> ceil_div (length t) c \<Longrightarrow>
     chunk_loop c t (k * c) acc = Some (acc @ slices_from c t k (ceil_div (length t) c))"
proof (induction "ceil_div (length t) c - k" arbitrary: k acc)
  case 0
  then have "\<not> k < ceil_div (length t) c" by simp
  then have "\<not> k * c < length t" using c by (simp add: lt_ceil_div)
  with 0 show ?case
    by (subst chunk_loop.simps) (simp add: slices_from_def)
next
  case (Suc d)
  then have kn: "k < ceil_div (length t) c" by simp
  then have lt: "k * c < length t" using c by (simp add: lt_ceil_div)
  have "chunk_loop c t (Suc k * c) (acc @ [take c (drop (k * c) t)])
        = Some ((acc @ [take c (drop (k * c) t)]) @ slices_from c t (Suc k) (ceil_div (length t) c))"
    using Suc kn by (intro Suc.hyps(1)) auto
  then have "chunk_loop c t (k * c + c) (acc @ [take c (drop (k * c) t)])
        = Some (acc @ take c (drop (k * c) t) # slices_from c t (Suc k) (ceil_div (length t) c))"
    by (simp add: add.commute)
  moreover note slices_from_step [OF kn, of c t]
  moreover have "substring t (k * c) (k * c + c) = take c (drop (k * c) t)"
    using lt by (simp add: substring_chunk)
  ultimately show ?case using lt
    by (subst chunk_loop.simps) simp
qed

lemma concat_slices:
  "0 < c \<Longrightarrow> length t \<le> n * c \<Longrightarrow> k \<le> n \<Longrightarrow> concat (slices_from c t k n) = drop (k * c) t"
proof (induction "n - k" arbitrary: k)
  case 0
  then show ?case by (simp add: slices_from_def)
next
  case (Suc d)
  then have kn: "k < n" by simp
  have "concat (slices_from c t (Suc k) n) = drop (Suc k * c) t"
    using Suc kn by (intro Suc.hyps(1)) auto
  moreover note slices_from_step [OF kn, of c t]
  moreover have "drop (Suc k * c) t = drop c (drop (k * c) t)" by (simp add: add.commute)
  ultimately have "concat (slices_from c t k n) = take c (drop (k * c) t) @ drop c (drop (k * c) t)"
    by (simp del: drop_drop)
  then show ?case by (simp only: append_take_drop_id)
qed

lemma length_slices [simp]: "length (slices_from c t k n) = n - k"
  by (simp add: slices_from_def)

lemma nth_slices: "j < n \<Longrightarrow> slices_from c t 0 n ! j = take c (drop (j * c) t)"
  by (simp add: slices_from_def)

lemma split_chunks_slices:
  "0 < c \<Longrightarrow> split_chunks c t = Some (slices_from c t 0 (ceil_div (length t) c))"
  using chunk_loop_slices [of c 0 t "[]"] by (simp add: split_chunks_def)

text \<open>
  C6. For a chunk size \<open>C > 0\<close> and a text of length \<open>L\<close>, the split returns, and returns
  exactly \<open>\<lceil>L / C\<rceil>\<close> slices; the \<open>k\<close>-th slice is the \<open>C\<close> characters of the text from
  position \<open>k * C\<close> (so the slices are contiguous, ordered and do not overlap); every slice
  but the last has exactly \<open>C\<close> characters; the last one holds the remainder, between 1 and
  \<open>C\<close> characters; and the slices concatenated in order are the text.
\<close>

theorem split_chunks_correct:
  assumes "0 < chunkSize"
  shows "\<exists>chunks. split_chunks chunkSize fullText = Some chunks
      \<and> length chunks = nat \<lceil>real (length fullText) / real chunkSize\<rceil>
      \<and> (\<forall>k < length chunks. chunks ! k = take chunkSize (drop (k * chunkSize) fullText))
      \<and> (\<forall>k. Suc k < length chunks \<longrightarrow> length (chunks ! k) = chunkSize)
      \<and> (chunks \<noteq> [] \<longrightarrow>
            length (last chunks) = length fullText - (length chunks - 1) * chunkSize
          \<and> 0 < length (last chunks) \<and> length (last chunks) \<le> chunkSize)
      \<and> concat chunks = fullText"
proof -
  let ?n = "ceil_div (length fullText) chunkSize"
  let ?cs = "slices_from chunkSize fullText 0 ?n"
  have run: "split_chunks chunkSize fullText = Some ?cs"
    by (rule split_chunks_slices [OF assms])
  have len: "length ?cs = nat \<lceil>real (length fullText) / real chunkSize\<rceil>"
    by (simp add: ceil_div_ceiling [OF assms])
  have nth: "\<forall>k < length ?cs. ?cs ! k = take chunkSize (drop (k * chunkSize) fullText)"
    by (simp add: nth_slices)
  have full: "\<forall>k. Suc k < length ?cs \<longrightarrow> length (?cs ! k) = chunkSize"
  proof (intro allI impI)
    fix k assume k: "Suc k < length ?cs"
    then have "Suc k * chunkSize < length fullText"
      using lt_ceil_div [OF assms, of "Suc k" "length fullText"] by simp
    then show "length (?cs ! k) = chunkSize"
      using k by (simp add: nth_slices)
  qed
  have lastc: "?cs \<noteq> [] \<longrightarrow>
            length (last ?cs) = length fullText - (length ?cs - 1) * chunkSize
          \<and> 0 < length (last ?cs) \<and> length (last ?cs) \<le> chunkSize"
  proof
    assume ne: "?cs \<noteq> []"
    then have n: "0 < ?n" by (cases ?n) (auto simp: slices_from_def)
    then have lt: "(?n - 1) * chunkSize < length fullText"
      using lt_ceil_div [OF assms, of "?n - 1" "length fullText"] by simp
    have le: "length fullText \<le> ?n * chunkSize"
      by (rule ceil_div_covers [OF assms])
    have "?n * chunkSize = (?n - 1) * chunkSize + chunkSize"
      using n by (cases ?n) auto
    with le have le': "length fullText - (?n - 1) * chunkSize \<le> chunkSize" by simp
    have "last ?cs = ?cs ! (?n - 1)"
      using ne by (simp add: last_conv_nth)
    also have "\<dots> = take chunkSize (drop ((?n - 1) * chunkSize) fullText)"
      using n by (simp add: nth_slices)
    finally show "length (last ?cs) = length fullText - (length ?cs - 1) * chunkSize
          \<and> 0 < length (last ?cs) \<and> length (last ?cs) \<le> chunkSize"
      using lt le' by simp
  qed
  have cat: "concat ?cs = fullText"
    using concat_slices [OF assms ceil_div_covers [OF assms], of 0 fullText] by simp
  from run len nth full lastc cat show ?thesis by blast
qed

theorem split_chunks_correct_witness:
  "(0::nat) < 3 \<and> (\<exists>chunks. split_chunks 3 ''abcdefgh'' = Some chunks
      \<and> length chunks = 3 \<and> length (last chunks) = 2 \<and> concat chunks = ''abcdefgh'')"
proof -
  have c: "(0::nat) < 3" by simp
  have n: "nat \<lceil>real (length ''abcdefgh'') / real (3::nat)\<rceil> = 3"
    by (simp add: ceiling_eq_iff)
  from split_chunks_correct [OF c, of "''abcdefgh''"] obtain chunks where
    "split_chunks 3 ''abcdefgh'' = Some chunks"
    "length chunks = nat \<lceil>real (length ''abcdefgh'') / real (3::nat)\<rceil>"
    "chunks \<noteq> [] \<longrightarrow> length (last chunks) = length ''abcdefgh'' - (length chunks - 1) * 3"
    "concat chunks = ''abcdefgh''"
    by blast
  with n show ?thesis by (intro conjI exI [of _ chunks]) auto
qed

subsection \<open>fillMissingFields\<close>

text \<open>
  On an object with the built-in prototype, a name that \<^verbatim>\<open>Object.prototype\<close> does not
  define is read, tested and assigned as an own property. So for a schema whose declared
  names are of that kind (and whose descriptors can be read) the loop completes, and
  afterwards every declared field that the candidate lacks or has as \<^verbatim>\<open>undefined\<close>
  holds the default of its kind, while every other key holds what the candidate holds.
\<close>

lemma proto_key_listed: "''__proto__'' \<in> set object_prototype_keys"
  by (simp add: object_prototype_keys_def)

lemma builtin_member_ordinary:
  "key \<notin> set object_prototype_keys \<Longrightarrow> builtin_member False key = Absent"
  using proto_key_listed by (auto simp: builtin_member_def)

lemma js_in_ordinary:
  "key \<notin> set object_prototype_keys \<Longrightarrow> js_in key (new_object ps) = has_own ps key"
  by (simp add: js_in_def lookup_def new_object_def has_own_def builtin_member_ordinary
      split: option.splits)

lemma js_get_ordinary:
  "key \<notin> set object_prototype_keys \<Longrightarrow> js_get (new_object ps) key = Value (own_value ps key)"
  by (simp add: js_get_def lookup_def new_object_def own_value_def builtin_member_ordinary
      split: option.splits)

lemma js_set_ordinary:
  "key \<notin> set object_prototype_keys \<Longrightarrow>
     js_set (new_object ps) key v = new_object (own_set ps key v)"
  by (simp add: js_set_def new_object_def builtin_member_ordinary)

lemma own_value_set: "own_value (own_set ps k v) k' = (if k' = k then v else own_value ps k')"
  by (simp add: own_value_def own_set_def update_conv')

lemma has_own_set: "has_own (own_set ps k v) k' \<longleftrightarrow> k' = k \<or> has_own ps k'"
  by (simp add: has_own_def own_set_def update_conv')

lemma default_for_defined: "default_for n \<noteq> JUndefined"
  by (simp add: default_for_def)

lemma fill_loop_ordinary:
  assumes "\<forall>(k, z) \<in> set fs. k \<notin> set object_prototype_keys \<and> z \<noteq> NoType"
  shows "\<exists>qs. fill_loop (new_object ps) fs = (new_object qs, None)
     \<and> (\<forall>key. has_own qs key \<longleftrightarrow> has_own ps key \<or> key \<in> fst ` set fs)
     \<and> (\<forall>key. own_value qs key =
           (if (\<not> has_own ps key \<or> own_value ps key = JUndefined) \<and> key \<in> fst ` set fs
            then (case map_of fs key of Some (ZodType n) \<Rightarrow> default_for n | _ \<Rightarrow> JUndefined)
            else own_value ps key))"
  using assms
proof (induction fs arbitrary: ps)
  case Nil
  show ?case by (intro exI [of _ ps]) simp
next
  case (Cons f fs)
  obtain k z where f: "f = (k, z)" by (cases f)
  with Cons.prems have k: "k \<notin> set object_prototype_keys" and z: "z \<noteq> NoType"
    and rest: "\<forall>(k, z) \<in> set fs. k \<notin> set object_prototype_keys \<and> z \<noteq> NoType"
    by auto
  from z obtain n where n: "z = ZodType n" by (cases z) auto
  show ?case
  proof (cases "field_missing (new_object ps) k")
    case True
    then have m: "\<not> has_own ps k \<or> own_value ps k = JUndefined"
      by (simp add: field_missing_def js_in_ordinary [OF k] js_get_ordinary [OF k])
    from Cons.IH [OF rest, of "own_set ps k (default_for n)"] obtain qs where
      q: "fill_loop (new_object (own_set ps k (default_for n))) fs = (new_object qs, None)"
        "\<forall>key. has_own qs key \<longleftrightarrow> has_own (own_set ps k (default_for n)) key \<or> key \<in> fst ` set fs"
        "\<forall>key. own_value qs key =
           (if (\<not> has_own (own_set ps k (default_for n)) key
                \<or> own_value (own_set ps k (default_for n)) key = JUndefined) \<and> key \<in> fst ` set fs
            then (case map_of fs key of Some (ZodType n) \<Rightarrow> default_for n | _ \<Rightarrow> JUndefined)
            else own_value (own_set ps k (default_for n)) key)"
      by blast
    have run: "fill_loop (new_object ps) (f # fs) = (new_object qs, None)"
      using True q(1) by (simp add: f n js_set_ordinary [OF k])
    have keys: "\<forall>key. has_own qs key \<longleftrightarrow> has_own ps key \<or> key \<in> fst ` set (f # fs)"
      using q(2) by (auto simp: has_own_set f)
    have vals: "\<forall>key. own_value qs key =
           (if (\<not> has_own ps key \<or> own_value ps key = JUndefined) \<and> key \<in> fst ` set (f # fs)
            then (case map_of (f # fs) key of Some (ZodType n) \<Rightarrow> default_for n | _ \<Rightarrow> JUndefined)
            else own_value ps key)"
      using q(3) m by (auto simp: has_own_set own_value_set f n default_for_defined)
    from run keys vals show ?thesis by blast
  next
    case False
    then have m: "has_own ps k" "own_value ps k \<noteq> JUndefined"
      by (simp_all add: field_missing_def js_in_ordinary [OF k] js_get_ordinary [OF k])
    from Cons.IH [OF rest, of ps] obtain qs where
      q: "fill_loop (new_object ps) fs = (new_object qs, None)"
        "\<forall>key. has_own qs key \<longleftrightarrow> has_own ps key \<or> key \<in> fst ` set fs"
        "\<forall>key. own_value qs key =
           (if (\<not> has_own ps key \<or> own_value ps key = JUndefined) \<and> key \<in> fst ` set fs
            then (case map_of fs key of Some (ZodType n) \<Rightarrow> default_for n | _ \<Rightarrow> JUndefined)
            else own_value ps key)"
      by blast
    have run: "fill_loop (new_object ps) (f # fs) = (new_object qs, None)"
      using False q(1) by (simp add: f)
    have keys: "\<forall>key. has_own qs key \<longleftrightarrow> has_own ps key \<or> key \<in> fst ` set (f # fs)"
      using q(2) m by (auto simp: f)
    have vals: "\<forall>key. own_value qs key =
           (if (\<not> has_own ps key \<or> own_value ps key = JUndefined) \<and> key \<in> fst ` set (f # fs)
            then (case map_of (f # fs) key of Some (ZodType n) \<Rightarrow> default_for n | _ \<Rightarrow> JUndefined)
            else own_value ps key)"
      using q(3) m by (auto simp: f)
    from run keys vals show ?thesis by blast
  qed
qed

lemma fillMissingFields_own_names:
  assumes "\<forall>(k, z) \<in> set (shape_keys sch). k \<notin> set object_prototype_keys \<and> z \<noteq> NoType"
  shows "fillMissingFields sch c = parse sch (JObj (fill_defaults sch c))"
    and "has_own (fill_defaults sch c) key
           \<longleftrightarrow> has_own (own_props c) key \<or> key \<in> fst ` set (shape_keys sch)"
    and "map_of (shape_keys sch) key = Some (ZodType n) \<Longrightarrow>
         \<not> has_own (own_props c) key \<or> own_value (own_props c) key = JUndefined \<Longrightarrow>
         own_value (fill_defaults sch c) key = default_for n"
    and "has_own (own_props c) key \<and> own_value (own_props c) key \<noteq> JUndefined
           \<or> key \<notin> fst ` set (shape_keys sch) \<Longrightarrow>
         own_value (fill_defaults sch c) key = own_value (own_props c) key"
proof -
  from fill_loop_ordinary [OF assms, of "own_props c"] obtain qs where
    q: "fill_loop (new_object (own_props c)) (shape_keys sch) = (new_object qs, None)"
      "\<forall>key. has_own qs key \<longleftrightarrow> has_own (own_props c) key \<or> key \<in> fst ` set (shape_keys sch)"
      "\<forall>key. own_value qs key =
           (if (\<not> has_own (own_props c) key \<or> own_value (own_props c) key = JUndefined)
               \<and> key \<in> fst ` set (shape_keys sch)
            then (case map_of (shape_keys sch) key of Some (ZodType n) \<Rightarrow> default_for n
                  | _ \<Rightarrow> JUndefined)
            else own_value (own_props c) key)"
    by blast
  have "props (new_object qs) = qs" by (simp add: new_object_def)
  then have fd: "fill_defaults sch c = qs"
    by (simp add: fill_defaults_def q(1))
  show "fillMissingFields sch c = parse sch (JObj (fill_defaults sch c))"
    by (simp add: fillMissingFields_def q(1))
  show "has_own (fill_defaults sch c) key
           \<longleftrightarrow> has_own (own_props c) key \<or> key \<in> fst ` set (shape_keys sch)"
    using q(2) by (simp add: fd)
  show "own_value (fill_defaults sch c) key = default_for n"
    if "map_of (shape_keys sch) key = Some (ZodType n)"
      "\<not> has_own (own_props c) key \<or> own_value (own_props c) key = JUndefined"
  proof -
    from that(1) have "key \<in> fst ` set (shape_keys sch)"
      by (metis map_of_eq_None_iff option.distinct(1))
    with that q(3) show ?thesis by (simp add: fd)
  qed
  show "own_value (fill_defaults sch c) key = own_value (own_props c) key"
    if "has_own (own_props c) key \<and> own_value (own_props c) key \<noteq> JUndefined
           \<or> key \<notin> fst ` set (shape_keys sch)"
    using that q(3) by (auto simp: fd)
qed

text \<open>
  C1. The code tests \<^verbatim>\<open>key in fullResponse\<close>, which is true of every name that
  \<^verbatim>\<open>Object.prototype\<close> defines. For the schema
  \<^verbatim>\<open>{constructor: string, name: string}\<close> and the candidate \<^verbatim>\<open>{}\<close>, both
  declared fields are absent from the candidate, but only \<^verbatim>\<open>name\<close> gets its
  default: the object handed to the validation is \<^verbatim>\<open>{name: ""}\<close>, it has no own
  property \<^verbatim>\<open>constructor\<close>, and the call fails with the validation's error.
\<close>

theorem fillMissingFields_skips_inherited_name:
  "fill_defaults constructor_schema (JObj []) = [(''name'', JStr '''')]
   \<and> has_own (fill_defaults constructor_schema (JObj [])) ''constructor'' = False
   \<and> default_for (Some ''ZodString'') = JStr ''''
   \<and> fillMissingFields constructor_schema (JObj [])
       = parse constructor_schema (JObj [(''name'', JStr '''')])
   \<and> fillMissingFields constructor_schema (JObj [])
       = Inl (Thrown (Some (Text ''[{code:invalid_type}]'')) (Some (Text ''invalid_type''))
                (Text ''ZodError''))"
  by code_simp

text \<open>
  C10. For a schema with no \<^verbatim>\<open>shape\<close> (a union schema), the loop visits no key: the
  object that is validated has exactly the candidate's properties and the function returns
  the schema's parse of that copy. On the store, the copy is a new object and every object
  that was there before, the candidate among them, is as it was.
\<close>

theorem fillMissingFields_no_shape:
  assumes "shape sch = None"
  shows "fill_defaults sch c = own_props c
     \<and> fillMissingFields sch c = parse sch (JObj (own_props c))
     \<and> fillMissingFields_at sch a st = (parse sch (JObj (st ! a)), st @ [st ! a])
     \<and> (\<forall>b < length st. snd (fillMissingFields_at sch a st) ! b = st ! b)"
proof -
  have keys: "shape_keys sch = []" using assms by (simp add: shape_keys_def)
  have fd: "fill_defaults sch v = own_props v" for v
    by (simp add: fill_defaults_def keys new_object_def)
  have fm: "fillMissingFields sch v = parse sch (JObj (own_props v))" for v
    by (simp add: fillMissingFields_def keys fd)
  have at: "fillMissingFields_at sch a st = (parse sch (JObj (st ! a)), st @ [st ! a])"
    by (simp add: fillMissingFields_at_def store_alloc_def keys)
  then have old: "\<forall>b < length st. snd (fillMissingFields_at sch a st) ! b = st ! b"
    by (simp add: nth_append)
  show ?thesis
    using fd [of c] fm [of c] at old by (intro conjI)
qed

theorem fillMissingFields_no_shape_witness:
  "shape command_schema = None
   \<and> fill_defaults command_schema (JObj [(''command'', JStr ''MODE_3D'')])
       = [(''command'', JStr ''MODE_3D'')]
   \<and> snd (fillMissingFields_at command_schema 0 [[(''command'', JStr ''MODE_3D'')]]) ! 0
       = [(''command'', JStr ''MODE_3D'')]"
proof -
  have s: "shape command_schema = None"
    by (simp add: command_schema_def union_schema_def)
  from fillMissingFields_no_shape [OF s, of "JObj [(''command'', JStr ''MODE_3D'')]" 0
      "[[(''command'', JStr ''MODE_3D'')]]"]
  show ?thesis using s by simp
qed

subsection \<open>executeModel\<close>

lemma error_message_new_Error: "msg \<noteq> [] \<Longrightarrow> error_message (new_Error msg) = Text msg"
  by (simp add: error_message_def new_Error_def)

lemma executeModel_log:
  "executeModel t m c sch ic lg = (x, lg') \<Longrightarrow>
     lg' = lg @ (case request_of sch m c of None \<Rightarrow> [] | Some q \<Rightarrow> [q])"
  by (auto simp: executeModel_def executeModel_try_def request_of_def Let_def
      split: prod.splits sum.splits if_splits ai_outcome.splits rendering.splits)

lemma executeModel_success_request:
  "executeModel t m c sch ic lg = (Inr r, lg') \<Longrightarrow> success r \<Longrightarrow>
     \<exists>q. request_of sch m c = Some q \<and> lg' = lg @ [q]"
  by (auto simp: executeModel_def executeModel_try_def request_of_def Let_def
      split: prod.splits sum.splits if_splits ai_outcome.splits rendering.splits)

lemma executeModel_fields:
  "executeModel t m c sch ic lg = (Inr r, lg') \<Longrightarrow> modelUsed r = m \<and> isChunked r = Some ic"
  by (auto simp: executeModel_def split: prod.splits sum.splits rendering.splits)

lemma executeModel_failure_shape:
  "executeModel t m c sch ic lg = (Inr r, lg') \<Longrightarrow> \<not> success r \<Longrightarrow>
     structuredResult r = JNull \<and> (\<exists>msg. error r = Some (''Model '' @ m @ '' failed: '' @ msg))"
  by (auto simp: executeModel_def split: prod.splits sum.splits rendering.splits)

lemma executeModel_rejects:
  "executeModel t m c sch ic lg = (Inl e, lg') \<Longrightarrow>
     \<exists>caught. fst (executeModel_try t m c sch lg) = Inl caught \<and> error_message caught = Raises e"
  by (auto simp: executeModel_def split: prod.splits sum.splits rendering.splits)

lemma request_of_Some:
  "request_of sch m c = Some q \<Longrightarrow>
     \<exists>js0. toJsonSchema sch = Inr js0 \<and> \<not> wire_schema_unusable (strip_schema_marker js0)
       \<and> q = ExtractRequest m system_content (build_prompt c) (strip_schema_marker js0)"
  by (auto simp: request_of_def split: sum.splits if_splits)

text \<open>
  C2 (as amended). executeModel returns every failure that arises inside it as a
  \<^verbatim>\<open>success: false\<close> record with the error \<^verbatim>\<open>Model <id> failed: <message>\<close>:
  a wire schema without \<^verbatim>\<open>properties\<close> or whose \<^verbatim>\<open>type\<close> is not
  \<^verbatim>\<open>"object"\<close> (returned, not thrown, and no backend call is made: the log is
  unchanged), a failure to render the schema, a rejection by the backend, an empty or null
  payload, and a repair or validation failure. The returned promise rejects only when the
  catch handler cannot print the value it has caught.
\<close>

theorem executeModel_failures_returned:
  "(\<forall>js0. toJsonSchema sch = Inr js0 \<and> wire_schema_unusable (strip_schema_marker js0)
       \<longrightarrow> executeModel t modelName textPayload sch isChunk lg
           = (Inr \<lparr>success = False, modelUsed = modelName, structuredResult = JNull,
                    error = Some (''Model '' @ modelName
                      @ '' failed: Failed to generate a valid JSON schema for the request.''),
                    isChunked = Some isChunk\<rparr>, lg))
   \<and> (\<forall>e msg. toJsonSchema sch = Inl e \<and> error_message e = Text msg
       \<longrightarrow> executeModel t modelName textPayload sch isChunk lg
           = (Inr \<lparr>success = False, modelUsed = modelName, structuredResult = JNull,
                    error = Some (''Model '' @ modelName @ '' failed: '' @ msg),
                    isChunked = Some isChunk\<rparr>, lg))
   \<and> (\<forall>q e msg. request_of sch modelName textPayload = Some q \<and> ai_run t lg q = Rejects e
          \<and> error_message e = Text msg
       \<longrightarrow> executeModel t modelName textPayload sch isChunk lg
           = (Inr \<lparr>success = False, modelUsed = modelName, structuredResult = JNull,
                    error = Some (''Model '' @ modelName @ '' failed: '' @ msg),
                    isChunked = Some isChunk\<rparr>, lg @ [q]))
   \<and> (\<forall>q response. request_of sch modelName textPayload = Some q
          \<and> ai_run t lg q = Resolves response \<and> is_nullish (get_prop response P_response)
       \<longrightarrow> executeModel t modelName textPayload sch isChunk lg
           = (Inr \<lparr>success = False, modelUsed = modelName, structuredResult = JNull,
                    error = Some (''Model '' @ modelName @ '' failed: Model '' @ modelName
                      @ '' returned an empty or invalid response.''),
                    isChunked = Some isChunk\<rparr>, lg @ [q]))
   \<and> (\<forall>q response e msg. request_of sch modelName textPayload = Some q
          \<and> ai_run t lg q = Resolves response \<and> \<not> is_nullish (get_prop response P_response)
          \<and> fillMissingFields sch (get_prop response P_response) = Inl e
          \<and> error_message e = Text msg
       \<longrightarrow> executeModel t modelName textPayload sch isChunk lg
           = (Inr \<lparr>success = False, modelUsed = modelName, structuredResult = JNull,
                    error = Some (''Model '' @ modelName @ '' failed: '' @ msg),
                    isChunked = Some isChunk\<rparr>, lg @ [q]))
   \<and> (\<forall>e lg'. executeModel t modelName textPayload sch isChunk lg = (Inl e, lg')
       \<longrightarrow> (\<exists>caught. fst (executeModel_try t modelName textPayload sch lg) = Inl caught
              \<and> error_message caught = Raises e))"
proof (intro conjI allI impI)
  fix js0
  assume "toJsonSchema sch = Inr js0 \<and> wire_schema_unusable (strip_schema_marker js0)"
  then show "executeModel t modelName textPayload sch isChunk lg
           = (Inr \<lparr>success = False, modelUsed = modelName, structuredResult = JNull,
                    error = Some (''Model '' @ modelName
                      @ '' failed: Failed to generate a valid JSON schema for the request.''),
                    isChunked = Some isChunk\<rparr>, lg)"
    by (simp add: executeModel_def executeModel_try_def Let_def error_message_new_Error)
next
  fix e msg
  assume "toJsonSchema sch = Inl e \<and> error_message e = Text msg"
  then show "executeModel t modelName textPayload sch isChunk lg
           = (Inr \<lparr>success = False, modelUsed = modelName, structuredResult = JNull,
                    error = Some (''Model '' @ modelName @ '' failed: '' @ msg),
                    isChunked = Some isChunk\<rparr>, lg)"
    by (simp add: executeModel_def executeModel_try_def Let_def)
next
  fix q e msg
  assume h: "request_of sch modelName textPayload = Some q \<and> ai_run t lg q = Rejects e
          \<and> error_message e = Text msg"
  then obtain js0 where "toJsonSchema sch = Inr js0"
    "\<not> wire_schema_unusable (strip_schema_marker js0)"
    "q = ExtractRequest modelName system_content (build_prompt textPayload) (strip_schema_marker js0)"
    using request_of_Some by blast
  with h show "executeModel t modelName textPayload sch isChunk lg
           = (Inr \<lparr>success = False, modelUsed = modelName, structuredResult = JNull,
                    error = Some (''Model '' @ modelName @ '' failed: '' @ msg),
                    isChunked = Some isChunk\<rparr>, lg @ [q])"
    by (simp add: executeModel_def executeModel_try_def Let_def)
next
  fix q response
  assume h: "request_of sch modelName textPayload = Some q
          \<and> ai_run t lg q = Resolves response \<and> is_nullish (get_prop response P_response)"
  then obtain js0 where "toJsonSchema sch = Inr js0"
    "\<not> wire_schema_unusable (strip_schema_marker js0)"
    "q = ExtractRequest modelName system_content (build_prompt textPayload) (strip_schema_marker js0)"
    using request_of_Some by blast
  with h show "executeModel t modelName textPayload sch isChunk lg
           = (Inr \<lparr>success = False, modelUsed = modelName, structuredResult = JNull,
                    error = Some (''Model '' @ modelName @ '' failed: Model '' @ modelName
                      @ '' returned an empty or invalid response.''),
                    isChunked = Some isChunk\<rparr>, lg @ [q])"
    by (simp add: executeModel_def executeModel_try_def Let_def error_message_new_Error
        is_nullish_def)
next
  fix q response e msg
  assume h: "request_of sch modelName textPayload = Some q
          \<and> ai_run t lg q = Resolves response \<and> \<not> is_nullish (get_prop response P_response)
          \<and> fillMissingFields sch (get_prop response P_response) = Inl e
          \<and> error_message e = Text msg"
  then obtain js0 where "toJsonSchema sch = Inr js0"
    "\<not> wire_schema_unusable (strip_schema_marker js0)"
    "q = ExtractRequest modelName system_content (build_prompt textPayload) (strip_schema_marker js0)"
    using request_of_Some by blast
  with h show "executeModel t modelName textPayload sch isChunk lg
           = (Inr \<lparr>success = False, modelUsed = modelName, structuredResult = JNull,
                    error = Some (''Model '' @ modelName @ '' failed: '' @ msg),
                    isChunked = Some isChunk\<rparr>, lg @ [q])"
    by (simp add: executeModel_def executeModel_try_def Let_def is_nullish_def)
next
  fix e lg'
  assume "executeModel t modelName textPayload sch isChunk lg = (Inl e, lg')"
  then show "\<exists>caught. fst (executeModel_try t modelName textPayload sch lg) = Inl caught
              \<and> error_message caught = Raises e"
    by (rule executeModel_rejects)
qed

theorem executeModel_failures_returned_witness:
  "executeModel (test_tool 5 [envelope JNull]) ''m'' ''hi'' name_tags_schema False []
     = (Inr \<lparr>success = False, modelUsed = ''m'', structuredResult = JNull,
              error = Some ''Model m failed: Model m returned an empty or invalid response.'',
              isChunked = Some False\<rparr>, [name_tags_request ''m'' ''hi''])"
proof -
  have q: "request_of name_tags_schema ''m'' ''hi'' = Some (name_tags_request ''m'' ''hi'')"
    by code_simp
  have r: "ai_run (test_tool 5 [envelope JNull]) [] (name_tags_request ''m'' ''hi'')
      = Resolves (JObj [(''response'', JNull)])"
    by code_simp
  have n: "is_nullish (get_prop (JObj [(''response'', JNull)]) P_response)"
    by code_simp
  from q r n have "request_of name_tags_schema ''m'' ''hi'' = Some (name_tags_request ''m'' ''hi'')
      \<and> ai_run (test_tool 5 [envelope JNull]) [] (name_tags_request ''m'' ''hi'')
          = Resolves (JObj [(''response'', JNull)])
      \<and> is_nullish (get_prop (JObj [(''response'', JNull)]) P_response)"
    by (intro conjI)
  from executeModel_failures_returned [of name_tags_schema "test_tool 5 [envelope JNull]" "''m''"
      "''hi''" False "[]", THEN conjunct2, THEN conjunct2, THEN conjunct2, THEN conjunct1,
      rule_format, OF this]
  show ?thesis by simp
qed

text \<open>
  The claim fails where it says that a wire schema without \<^verbatim>\<open>properties\<close> is thrown
  to the caller: for the union schema, rendered as \<^verbatim>\<open>{anyOf: [...]}\<close>, the call
  returns a \<^verbatim>\<open>success: false\<close> record (and leaves the log empty). And a runtime
  failure does escape when the backend rejects with a value that cannot be printed.
\<close>

theorem executeModel_thrown_counterexample:
  "(case toJsonSchema command_schema of
      Inr js0 \<Rightarrow> wire_schema_unusable (strip_schema_marker js0)
    | Inl e \<Rightarrow> False)
   \<and> executeModel (test_tool 5 [envelope (JObj [])]) ''m'' ''hi'' command_schema False []
     = (Inr \<lparr>success = False, modelUsed = ''m'', structuredResult = JNull,
              error = Some ''Model m failed: Failed to generate a valid JSON schema for the request.'',
              isChunked = Some False\<rparr>, [])
   \<and> executeModel (test_tool 5 [Rejects unprintable]) ''m'' ''hi'' name_tags_schema False []
     = (Inl (type_error ''Cannot convert object to primitive value''),
        [name_tags_request ''m'' ''hi''])"
  by code_simp

subsection \<open>chunkAndMerge\<close>

lemma merge_final_first:
  "merge_final sch m merged (Some m) = merge_final sch m merged None"
proof -
  have "or_else (Some m) m = or_else None m" by (simp add: or_else_def)
  then show ?thesis by (simp add: merge_final_def split: sum.splits rendering.splits)
qed

lemma chunk_run_first:
  "chunk_run t m sch n i cs merged (Some m) lg = chunk_run t m sch n i cs merged None lg"
proof (induction cs arbitrary: i merged lg)
  case Nil
  then show ?case by (simp add: merge_final_first)
next
  case (Cons c cs)
  show ?case
  proof (cases "executeModel t m c sch True lg")
    case (Pair x lg1)
    show ?thesis
    proof (cases x)
      case (Inl e)
      with Pair show ?thesis by simp
    next
      case (Inr r)
      with Pair have mu: "modelUsed r = m" using executeModel_fields by blast
      have nxt: "(if or_else (Some m) [] = [] then Some (modelUsed r) else Some m) = Some m"
        by (simp add: mu)
      have fst: "(if or_else None [] = [] then Some (modelUsed r) else None) = Some m"
        by (simp add: mu or_else_def)
      show ?thesis
        by (simp only: chunk_run.simps Pair Inr prod.case sum.case nxt fst Cons.IH)
    qed
  qed
qed

lemma chunk_run_ok_step:
  assumes "executeModel t m c sch True lg = (Inr r, lg1)" "success r" "truthy (structuredResult r)"
  shows "chunk_run t m sch n i (c # cs) merged None lg
       = chunk_run t m sch n (i + 1) cs (merge_result merged (structuredResult r)) None lg1"
  using assms executeModel_fields [OF assms(1)]
  by (simp add: or_else_def chunk_run_first)

lemma chunk_run_extracted:
  "all_extracted t m sch cs lg = Some (rs, lg') \<Longrightarrow>
   chunk_run t m sch n i (cs @ rest) merged None lg
     = chunk_run t m sch n (i + length cs) rest
         (foldl merge_result merged (map structuredResult rs)) None lg'"
proof (induction cs arbitrary: i merged lg rs)
  case Nil
  then show ?case by simp
next
  case (Cons c cs)
  from Cons.prems obtain r lg1 rs' where
    ex: "executeModel t m c sch True lg = (Inr r, lg1)" and ok: "success r" "truthy (structuredResult r)"
    and rest: "all_extracted t m sch cs lg1 = Some (rs', lg')" and rs: "rs = r # rs'"
    by (auto split: prod.splits sum.splits if_splits option.splits)
  have "chunk_run t m sch n i ((c # cs) @ rest) merged None lg
      = chunk_run t m sch n (i + 1) (cs @ rest) (merge_result merged (structuredResult r)) None lg1"
    using chunk_run_ok_step [OF ex ok] by simp
  also have "\<dots> = chunk_run t m sch n (i + 1 + length cs) rest
         (foldl merge_result (merge_result merged (structuredResult r)) (map structuredResult rs')) None lg'"
    by (rule Cons.IH [OF rest])
  finally show ?case by (simp add: rs)
qed

lemma all_extracted_log:
  "all_extracted t m sch cs lg = Some (rs, lg') \<Longrightarrow>
     take (length lg) lg' = lg \<and> map req_user (drop (length lg) lg') = map build_prompt cs
     \<and> map req_model (drop (length lg) lg') = map (\<lambda>c. m) cs"
proof (induction cs arbitrary: lg rs)
  case Nil
  then show ?case by simp
next
  case (Cons c cs)
  from Cons.prems obtain r lg1 rs' where
    ex: "executeModel t m c sch True lg = (Inr r, lg1)" and ok: "success r"
    and rest: "all_extracted t m sch cs lg1 = Some (rs', lg')"
    by (auto split: prod.splits sum.splits if_splits option.splits)
  from executeModel_success_request [OF ex ok] obtain q where
    q: "request_of sch m c = Some q" and lg1: "lg1 = lg @ [q]" by blast
  from request_of_Some [OF q] have qf: "req_user q = build_prompt c" "req_model q = m"
    by auto
  from Cons.IH [OF rest] have ih: "take (length lg1) lg' = lg1"
    "map req_user (drop (length lg1) lg') = map build_prompt cs"
    "map req_model (drop (length lg1) lg') = map (\<lambda>c. m) cs" by simp_all
  from ih(1) have "lg' = lg1 @ drop (length lg1) lg'"
    by (metis append_take_drop_id)
  then have eq: "lg' = lg @ q # drop (length lg1) lg'"
    by (simp add: lg1)
  have tk: "take (length lg) lg' = lg" by (subst eq) simp
  have dr: "drop (length lg) lg' = q # drop (length lg1) lg'" by (subst eq) simp
  show ?case using tk dr ih qf by simp
qed

lemma chunk_run_not_extracted:
  "all_extracted t m sch cs lg = None \<Longrightarrow>
     chunk_run t m sch n i cs merged None lg = (Inr r, lg') \<Longrightarrow> \<not> success r"
proof (induction cs arbitrary: i merged lg)
  case Nil
  then show ?case by simp
next
  case (Cons c cs)
  show ?case
  proof (cases "executeModel t m c sch True lg")
    case (Pair x lg1)
    show ?thesis
    proof (cases x)
      case (Inl e)
      with Pair Cons.prems show ?thesis by simp
    next
      case (Inr r1)
      show ?thesis
      proof (cases "success r1 \<and> truthy (structuredResult r1)")
        case True
        with Cons.prems(1) Pair Inr have none: "all_extracted t m sch cs lg1 = None"
          by (auto split: option.splits)
        from Pair Inr have ex: "executeModel t m c sch True lg = (Inr r1, lg1)" by simp
        from Cons.prems(2) chunk_run_ok_step [OF ex] True
        have "chunk_run t m sch n (i + 1) cs (merge_result merged (structuredResult r1)) None lg1
            = (Inr r, lg')" by simp
        from Cons.IH [OF none this] show ?thesis .
      next
        case False
        with Cons.prems(2) Pair Inr show ?thesis by auto
      qed
    qed
  qed
qed

lemma merge_final_success:
  "merge_final sch m merged f = Inr res \<Longrightarrow> success res \<Longrightarrow>
     fillMissingFields sch (JObj (props merged)) = Inr (structuredResult res)"
  by (auto simp: merge_final_def split: sum.splits rendering.splits)

text \<open>
  C3. With a positive chunk size the text splits into chunks. Let \<open>chunks\<close> be the
  chunks of the text. Whenever the chunks
  before some chunk have been extracted one after the other, each on the log its
  predecessor left, and the extraction of that chunk returns \<^verbatim>\<open>success: false\<close>,
  chunkAndMerge returns at once: the result is \<^verbatim>\<open>success: false\<close> with a null
  \<^verbatim>\<open>structuredResult\<close> and the error
  \<^verbatim>\<open>Chunking failure on chunk <i>/<n>: <error of that extraction>\<close>, where \<open>i\<close> is the
  position of the chunk and \<open>n\<close> the number of chunks; the log is the log that extraction
  left, and the requests added to it are those for the chunks up to the failed one, in
  order, so no later chunk was attempted. And whenever chunkAndMerge returns a success,
  every chunk was extracted, one request each in chunk order, and the result is the repair
  of the merge of all of them.
\<close>

theorem chunkAndMerge_fail_fast:
  "(0 < maxSmallContextChars t
      \<longrightarrow> (\<exists>chunks. split_chunks (maxSmallContextChars t) fullText = Some chunks))
   \<and> (\<forall>chunks. split_chunks (maxSmallContextChars t) fullText = Some chunks \<longrightarrow>
    (\<forall>passed chunk remaining results lg1 result lg2.
        chunks = passed @ chunk # remaining
        \<and> all_extracted t modelName sch passed lg = Some (results, lg1)
        \<and> executeModel t modelName chunk sch True lg1 = (Inr result, lg2)
        \<and> \<not> success result
      \<longrightarrow> chunkAndMerge t modelName fullText sch lg
            = Some (Inr \<lparr>success = False, modelUsed = modelName, structuredResult = JNull,
                         error = Some (''Chunking failure on chunk ''
                                   @ string_of_nat (length passed + 1) @ ''/''
                                   @ string_of_nat (length chunks) @ '': ''
                                   @ show_opt (error result)),
                         isChunked = Some True\<rparr>, lg2)
          \<and> (\<exists>e. error result = Some e)
          \<and> take (length lg) lg2 = lg
          \<and> (map req_user (drop (length lg) lg2) = map build_prompt (passed @ [chunk])
             \<or> map req_user (drop (length lg) lg2) = map build_prompt passed))
    \<and> (\<forall>res lg'.
          chunkAndMerge t modelName fullText sch lg = Some (Inr res, lg') \<and> success res
        \<longrightarrow> (\<exists>results. all_extracted t modelName sch chunks lg = Some (results, lg')
               \<and> take (length lg) lg' = lg
               \<and> map req_user (drop (length lg) lg') = map build_prompt chunks
               \<and> fillMissingFields sch
                    (JObj (props (foldl merge_result (new_object []) (map structuredResult results))))
                   = Inr (structuredResult res))))"
proof (rule conjI; (rule allI)?; rule impI)
  assume "0 < maxSmallContextChars t"
  then show "\<exists>chunks. split_chunks (maxSmallContextChars t) fullText = Some chunks"
    using split_chunks_slices by blast
next
  fix chunks
  assume split: "split_chunks (maxSmallContextChars t) fullText = Some chunks"
  show "(\<forall>passed chunk remaining results lg1 result lg2.
        chunks = passed @ chunk # remaining
        \<and> all_extracted t modelName sch passed lg = Some (results, lg1)
        \<and> executeModel t modelName chunk sch True lg1 = (Inr result, lg2)
        \<and> \<not> success result
      \<longrightarrow> chunkAndMerge t modelName fullText sch lg
            = Some (Inr \<lparr>success = False, modelUsed = modelName, structuredResult = JNull,
                         error = Some (''Chunking failure on chunk ''
                                   @ string_of_nat (length passed + 1) @ ''/''
                                   @ string_of_nat (length chunks) @ '': ''
                                   @ show_opt (error result)),
                         isChunked = Some True\<rparr>, lg2)
          \<and> (\<exists>e. error result = Some e)
          \<and> take (length lg) lg2 = lg
          \<and> (map req_user (drop (length lg) lg2) = map build_prompt (passed @ [chunk])
             \<or> map req_user (drop (length lg) lg2) = map build_prompt passed))
    \<and> (\<forall>res lg'.
          chunkAndMerge t modelName fullText sch lg = Some (Inr res, lg') \<and> success res
        \<longrightarrow> (\<exists>results. all_extracted t modelName sch chunks lg = Some (results, lg')
               \<and> take (length lg) lg' = lg
               \<and> map req_user (drop (length lg) lg') = map build_prompt chunks
               \<and> fillMissingFields sch
                    (JObj (props (foldl merge_result (new_object []) (map structuredResult results))))
                   = Inr (structuredResult res)))"
  proof (intro conjI allI impI)
  fix passed chunk remaining results lg1 result lg2
  assume h: "chunks = passed @ chunk # remaining
        \<and> all_extracted t modelName sch passed lg = Some (results, lg1)
        \<and> executeModel t modelName chunk sch True lg1 = (Inr result, lg2)
        \<and> \<not> success result"
  then have ch: "chunks = passed @ chunk # remaining"
    and ok: "all_extracted t modelName sch passed lg = Some (results, lg1)"
    and ex: "executeModel t modelName chunk sch True lg1 = (Inr result, lg2)"
    and fail: "\<not> success result" by simp_all
  have "chunk_run t modelName sch (length chunks) 0 chunks (new_object []) None lg
      = chunk_run t modelName sch (length chunks) (0 + length passed) (chunk # remaining)
          (foldl merge_result (new_object []) (map structuredResult results)) None lg1"
    unfolding ch by (rule chunk_run_extracted [OF ok])
  also have "\<dots> = (Inr \<lparr>success = False, modelUsed = modelName, structuredResult = JNull,
                         error = Some (''Chunking failure on chunk ''
                                   @ string_of_nat (length passed + 1) @ ''/''
                                   @ string_of_nat (length chunks) @ '': ''
                                   @ show_opt (error result)),
                         isChunked = Some True\<rparr>, lg2)"
    using ex fail by simp
  finally show "chunkAndMerge t modelName fullText sch lg
            = Some (Inr \<lparr>success = False, modelUsed = modelName, structuredResult = JNull,
                         error = Some (''Chunking failure on chunk ''
                                   @ string_of_nat (length passed + 1) @ ''/''
                                   @ string_of_nat (length chunks) @ '': ''
                                   @ show_opt (error result)),
                         isChunked = Some True\<rparr>, lg2)"
    by (simp add: chunkAndMerge_def split)
  show "\<exists>e. error result = Some e"
    using executeModel_failure_shape [OF ex fail] by blast
  from all_extracted_log [OF ok] have l1: "take (length lg) lg1 = lg"
    "map req_user (drop (length lg) lg1) = map build_prompt passed" by simp_all
  then have lg1: "lg1 = lg @ drop (length lg) lg1" by (metis append_take_drop_id)
  show "take (length lg) lg2 = lg"
  proof (cases "request_of sch modelName chunk")
    case None
    with executeModel_log [OF ex] l1 show ?thesis by simp
  next
    case (Some q)
    with executeModel_log [OF ex] have "lg2 = lg @ (drop (length lg) lg1 @ [q])"
      using lg1 by (metis append.assoc option.simps(5))
    then show ?thesis by (metis append_eq_conv_conj)
  qed
  show "map req_user (drop (length lg) lg2) = map build_prompt (passed @ [chunk])
             \<or> map req_user (drop (length lg) lg2) = map build_prompt passed"
  proof (cases "request_of sch modelName chunk")
    case None
    with executeModel_log [OF ex] l1 show ?thesis by simp
  next
    case (Some q)
    with executeModel_log [OF ex] have "lg2 = lg @ (drop (length lg) lg1 @ [q])"
      using lg1 by (metis append.assoc option.simps(5))
    then have "drop (length lg) lg2 = drop (length lg) lg1 @ [q]"
      by (metis append_eq_conv_conj)
    moreover have "req_user q = build_prompt chunk"
      using request_of_Some [OF Some] by auto
    ultimately show ?thesis using l1 by simp
  qed
next
  fix res lg'
  assume h: "chunkAndMerge t modelName fullText sch lg = Some (Inr res, lg') \<and> success res"
  then have run: "chunk_run t modelName sch (length chunks) 0 chunks (new_object []) None lg
      = (Inr res, lg')"
    and s: "success res"
    by (simp_all add: chunkAndMerge_def split)
  show "\<exists>results. all_extracted t modelName sch chunks lg = Some (results, lg')
               \<and> take (length lg) lg' = lg
               \<and> map req_user (drop (length lg) lg') = map build_prompt chunks
               \<and> fillMissingFields sch
                    (JObj (props (foldl merge_result (new_object []) (map structuredResult results))))
                   = Inr (structuredResult res)"
  proof (cases "all_extracted t modelName sch chunks lg")
    case None
    from chunk_run_not_extracted [OF None run] s show ?thesis by simp
  next
    case (Some p)
    obtain results lg1 where p: "p = (results, lg1)" by (cases p)
    from chunk_run_extracted [of t modelName sch chunks lg results lg1 "length chunks" 0 "[]"
        "new_object []"]
    have "chunk_run t modelName sch (length chunks) 0 chunks (new_object []) None lg
        = (merge_final sch modelName
             (foldl merge_result (new_object []) (map structuredResult results)) None, lg1)"
      using Some p by simp
    with run have "merge_final sch modelName
             (foldl merge_result (new_object []) (map structuredResult results)) None = Inr res"
      "lg' = lg1" by simp_all
    then show ?thesis
      using Some p s merge_final_success all_extracted_log [of t modelName sch chunks lg results lg1]
      by auto
  qed
  qed
qed

theorem chunkAndMerge_fail_fast_witness:
  "chunkAndMerge failing_second_chunk ''scout'' ''abcdefgh'' name_tags_schema []
     = Some (Inr \<lparr>success = False, modelUsed = ''scout'', structuredResult = JNull,
                  error = Some ''Chunking failure on chunk 2/3: Model scout failed: Model scout returned an empty or invalid response.'',
                  isChunked = Some True\<rparr>,
             [name_tags_request ''scout'' ''abc'', name_tags_request ''scout'' ''def''])"
proof -
  let ?r1 = "\<lparr>success = True, modelUsed = ''scout'',
           structuredResult = JObj [(''name'', JStr ''''), (''tags'', JArr [JStr ''a''])],
           error = None, isChunked = Some True\<rparr>"
  let ?r2 = "\<lparr>success = False, modelUsed = ''scout'', structuredResult = JNull,
           error = Some ''Model scout failed: Model scout returned an empty or invalid response.'',
           isChunked = Some True\<rparr>"
  have sp: "split_chunks (maxSmallContextChars failing_second_chunk) ''abcdefgh''
      = Some [''abc'', ''def'', ''gh'']"
    by code_simp
  have ok: "all_extracted failing_second_chunk ''scout'' name_tags_schema [''abc''] []
      = Some ([?r1], [name_tags_request ''scout'' ''abc''])"
    by code_simp
  have ex: "executeModel failing_second_chunk ''scout'' ''def'' name_tags_schema True
        [name_tags_request ''scout'' ''abc'']
      = (Inr ?r2, [name_tags_request ''scout'' ''abc'', name_tags_request ''scout'' ''def''])"
    by code_simp
  have n: "string_of_nat (length [''abc''] + 1) = ''2''"
    "string_of_nat (length [''abc'', ''def'', ''gh'']) = ''3''"
    by code_simp+
  have h: "[''abc'', ''def'', ''gh''] = [''abc''] @ ''def'' # [''gh'']
        \<and> all_extracted failing_second_chunk ''scout'' name_tags_schema [''abc''] []
            = Some ([?r1], [name_tags_request ''scout'' ''abc''])
        \<and> executeModel failing_second_chunk ''scout'' ''def'' name_tags_schema True
              [name_tags_request ''scout'' ''abc'']
            = (Inr ?r2, [name_tags_request ''scout'' ''abc'', name_tags_request ''scout'' ''def''])
        \<and> \<not> success ?r2"
    using ok ex by simp
  from chunkAndMerge_fail_fast [of failing_second_chunk "''abcdefgh''" "''scout''"
      name_tags_schema "[]", THEN conjunct2, rule_format, OF sp, THEN conjunct1, rule_format,
      OF h, THEN conjunct1]
  show ?thesis unfolding n by (simp add: show_opt_def)
qed

text \<open>
  C4. The merge tests \<^verbatim>\<open>!(key in mergedResults)\<close>, which is false of every name
  that \<^verbatim>\<open>Object.prototype\<close> defines. A first chunk result
  \<^verbatim>\<open>{constructor: null}\<close> has a null value for a key that the accumulator does not
  have, and the key is not set: the accumulator stays empty. For a name that
  \<^verbatim>\<open>Object.prototype\<close> does not define, such as \<^verbatim>\<open>note\<close>, the key is set to
  \<^verbatim>\<open>null\<close>; arrays are concatenated and a later scalar replaces an earlier one.
\<close>

theorem merge_null_for_inherited_name_not_set:
  "has_own (props (new_object [])) ''constructor'' = False
   \<and> js_in ''constructor'' (new_object []) = True
   \<and> props (merge_result (new_object []) (JObj [(''constructor'', JNull)])) = []
   \<and> props (merge_result (new_object []) (JObj [(''note'', JNull)])) = [(''note'', JNull)]
   \<and> props (merge_result (merge_result (new_object [])
               (JObj [(''tags'', JArr [JStr ''a'']), (''title'', JStr ''x'')]))
               (JObj [(''tags'', JArr [JStr ''b'']), (''title'', JStr ''y'')]))
       = [(''tags'', JArr [JStr ''a'', JStr ''b'']), (''title'', JStr ''y'')]"
  by code_simp

subsection \<open>analyzeText\<close>



lemma attempt_failure:
  "executeModel t m c sch False lg = (Inr r, lg') \<Longrightarrow> \<not> success r \<Longrightarrow>
     attempt t m c sch lg rest = rest r lg'"
  by (simp add: attempt_def)








text \<open>
  C9 (as amended). For a text that is not empty and at or below the threshold, if all four
  attempts return \<^verbatim>\<open>success: false\<close>, analyzeText returns a failure whose
  \<^verbatim>\<open>modelUsed\<close> is Llama3_3, the last backend tried, and whose error lists the four
  identifiers in the order tried and ends with the error of the fourth attempt.
\<close>

theorem analyzeText_exhausted:
  assumes "textPayload \<noteq> []" "length textPayload \<le> maxSmallContextChars t"
    and "executeModel t (Hermes2Pro t) textPayload sch False lg = (Inr r1, l1)" "\<not> success r1"
    and "executeModel t (MistralSmall3_1 t) textPayload sch False l1 = (Inr r2, l2)" "\<not> success r2"
    and "executeModel t (Llama4Scout t) textPayload sch False l2 = (Inr r3, l3)" "\<not> success r3"
    and "executeModel t (Llama3_3 t) textPayload sch False l3 = (Inr r4, l4)" "\<not> success r4"
  shows "\<exists>lastError msg.
      error r4 = Some lastError
      \<and> lastError = ''Model '' @ Llama3_3 t @ '' failed: '' @ msg
      \<and> analyzeText t sch textPayload lg
          = Some (Inr \<lparr>success = False, modelUsed = Llama3_3 t, structuredResult = JNull,
                       error = Some (''All models ('' @ Hermes2Pro t @ '', ''
                         @ MistralSmall3_1 t @ '', '' @ Llama4Scout t @ '', '' @ Llama3_3 t
                         @ '') failed to generate a valid structured response. Last error: ''
                         @ lastError),
                       isChunked = None\<rparr>, l4)"
proof -
  from executeModel_failure_shape [OF assms(9,10)] obtain msg where
    e: "error r4 = Some (''Model '' @ Llama3_3 t @ '' failed: '' @ msg)" by blast
  have "analyzeText t sch textPayload lg
      = Some (Inr \<lparr>success = False, modelUsed = Llama3_3 t, structuredResult = JNull,
                   error = Some (all_failed_message t (error r4)), isChunked = None\<rparr>, l4)"
    using assms by (simp add: analyzeText_def attempt_failure)
  then show ?thesis using e by (simp add: all_failed_message_def show_opt_def)
qed

theorem analyzeText_exhausted_witness:
  "analyzeText (test_tool 5 []) name_tags_schema ''hi'' []
     = Some (Inr \<lparr>success = False, modelUsed = ''llama33'', structuredResult = JNull,
                  error = Some ''All models (hermes, mistral, scout, llama33) failed to generate a valid structured response. Last error: Model llama33 failed: no answer'',
                  isChunked = None\<rparr>,
             [name_tags_request ''hermes'' ''hi'', name_tags_request ''mistral'' ''hi'',
              name_tags_request ''scout'' ''hi'', name_tags_request ''llama33'' ''hi''])"
proof -
  let ?t = "test_tool 5 []"
  let ?q1 = "name_tags_request ''hermes'' ''hi''"
  let ?q2 = "name_tags_request ''mistral'' ''hi''"
  let ?q3 = "name_tags_request ''scout'' ''hi''"
  let ?q4 = "name_tags_request ''llama33'' ''hi''"
  have ne: "''hi'' \<noteq> []" by simp
  have small: "length ''hi'' \<le> maxSmallContextChars ?t" by code_simp
  have e1: "executeModel ?t (Hermes2Pro ?t) ''hi'' name_tags_schema False []
      = (Inr \<lparr>success = False, modelUsed = ''hermes'', structuredResult = JNull,
               error = Some ''Model hermes failed: no answer'', isChunked = Some False\<rparr>, [?q1])"
    by code_simp
  have e2: "executeModel ?t (MistralSmall3_1 ?t) ''hi'' name_tags_schema False [?q1]
      = (Inr \<lparr>success = False, modelUsed = ''mistral'', structuredResult = JNull,
               error = Some ''Model mistral failed: no answer'', isChunked = Some False\<rparr>,
         [?q1, ?q2])"
    by code_simp
  have e3: "executeModel ?t (Llama4Scout ?t) ''hi'' name_tags_schema False [?q1, ?q2]
      = (Inr \<lparr>success = False, modelUsed = ''scout'', structuredResult = JNull,
               error = Some ''Model scout failed: no answer'', isChunked = Some False\<rparr>,
         [?q1, ?q2, ?q3])"
    by code_simp
  have e4: "executeModel ?t (Llama3_3 ?t) ''hi'' name_tags_schema False [?q1, ?q2, ?q3]
      = (Inr \<lparr>success = False, modelUsed = ''llama33'', structuredResult = JNull,
               error = Some ''Model llama33 failed: no answer'', isChunked = Some False\<rparr>,
         [?q1, ?q2, ?q3, ?q4])"
    by code_simp
  have names: "Hermes2Pro ?t = ''hermes''" "MistralSmall3_1 ?t = ''mistral''"
    "Llama4Scout ?t = ''scout''" "Llama3_3 ?t = ''llama33''"
    by (simp_all add: test_tool_def)
  from analyzeText_exhausted [OF ne small e1 _ e2 _ e3 _ e4]
  show ?thesis by (simp add: names)
qed

text \<open>
  The claim fails for a text above the threshold: there the two large-context backends
  and then chunkAndMerge are tried, and when all of them fail the result is the failure of
  chunkAndMerge, whose error names the chunk and the one backend that extracted it, not
  the backends attempted.
\<close>

theorem analyzeText_exhausted_counterexample:
  "maxSmallContextChars (test_tool 3 []) < length ''abcdefgh''
   \<and> analyzeText (test_tool 3 []) name_tags_schema ''abcdefgh'' []
       = Some (Inr \<lparr>success = False, modelUsed = ''scout'', structuredResult = JNull,
                    error = Some ''Chunking failure on chunk 1/3: Model scout failed: no answer'',
                    isChunked = Some True\<rparr>,
               [name_tags_request ''scout'' ''abcdefgh'', name_tags_request ''mistral'' ''abcdefgh'',
                name_tags_request ''scout'' ''abc''])
   \<and> analyzeText
         (test_tool 3
            [envelope JNull, envelope JNull,
             envelope (JObj [(''name'', JStr ''x''), (''tags'', JArr [JStr ''a''])]),
             envelope (JObj [(''name'', JStr ''y''), (''tags'', JArr [JStr ''b''])]),
             envelope (JObj [(''name'', JStr ''z''), (''tags'', JArr [JStr ''c''])])])
         name_tags_schema ''abcdefgh'' []
       = Some (Inr \<lparr>success = True, modelUsed = ''scout'',
                    structuredResult =
                      JObj [(''name'', JStr ''z''),
                            (''tags'', JArr [JStr ''a'', JStr ''b'', JStr ''c''])],
                    error = None, isChunked = Some True\<rparr>,
               [name_tags_request ''scout'' ''abcdefgh'', name_tags_request ''mistral'' ''abcdefgh'',
                name_tags_request ''scout'' ''abc'', name_tags_request ''scout'' ''def'',
                name_tags_request ''scout'' ''gh''])"
  by code_simp

text \<open>
  C7. The result that analyzeText builds when all four small-context backends have
  failed has no \<^verbatim>\<open>isChunked\<close> key, while the failure that executeModel returns for
  the same text has \<^verbatim>\<open>isChunked: false\<close>.
\<close>

theorem analyzeText_exhausted_result_lacks_isChunked:
  "analyzeText (test_tool 5 [envelope JNull, envelope JNull, envelope JNull, envelope JNull])
       name_tags_schema ''plan'' []
     = Some (Inr \<lparr>success = False, modelUsed = ''llama33'', structuredResult = JNull,
                  error = Some ''All models (hermes, mistral, scout, llama33) failed to generate a valid structured response. Last error: Model llama33 failed: Model llama33 returned an empty or invalid response.'',
                  isChunked = None\<rparr>,
             [name_tags_request ''hermes'' ''plan'', name_tags_request ''mistral'' ''plan'',
              name_tags_request ''scout'' ''plan'', name_tags_request ''llama33'' ''plan''])
   \<and> executeModel (test_tool 5 [envelope JNull]) ''hermes'' ''plan'' name_tags_schema False []
     = (Inr \<lparr>success = False, modelUsed = ''hermes'', structuredResult = JNull,
              error = Some ''Model hermes failed: Model hermes returned an empty or invalid response.'',
              isChunked = Some False\<rparr>,
        [name_tags_request ''hermes'' ''plan''])"
  by code_simp

subsection \<open>pollBatchAnalysisStatus\<close>

text \<open>
  A response with another status than \<^verbatim>\<open>completed\<close> is returned as it is. On a
  completed response, as long as every callback returns, which it does for an item that is
  not \<^verbatim>\<open>null\<close> or \<^verbatim>\<open>undefined\<close> and whose validation error can be printed, the
  poll returns the response with the status \<^verbatim>\<open>completed\<close> and each item replaced by
  what the callback makes of that item alone: the item with its result repaired, or the
  item in the failed shape.
\<close>

lemma promise_all_Inr:
  "\<forall>x \<in> set xs. \<exists>y. f x = Inr y \<Longrightarrow>
     \<exists>ys. promise_all (map f xs) = Inr ys \<and> length ys = length xs
       \<and> (\<forall>i < length xs. f (xs ! i) = Inr (ys ! i))"
proof (induction xs)
  case Nil
  then show ?case by simp
next
  case (Cons x xs)
  then obtain y where y: "f x = Inr y" by auto
  from Cons obtain ys where ys: "promise_all (map f xs) = Inr ys" "length ys = length xs"
    "\<forall>i < length xs. f (xs ! i) = Inr (ys ! i)" by auto
  have "promise_all (map f (x # xs)) = Inr (y # ys)" by (simp add: y ys(1))
  moreover have "\<forall>i < length (x # xs). f ((x # xs) ! i) = Inr ((y # ys) ! i)"
    using y ys(3) by (auto simp: nth_Cons split: nat.splits)
  ultimately show ?case using ys(2) by (intro exI [of _ "y # ys"]) simp
qed

lemma process_item_returns:
  assumes "\<not> is_nullish item"
    and "\<forall>e. fillMissingFields sch (get_prop (get_prop item P_result) P_response) = Inl e
           \<longrightarrow> (\<exists>msg. error_message e = Text msg)"
  shows "(\<exists>filled. process_item sch item
            = Inr (JObj (own_set (own_props item) ''result'' (JObj [(''response'', filled)])))
          \<and> fillMissingFields sch (get_prop (get_prop item P_result) P_response) = Inr filled)
       \<or> (\<exists>errorMessage. process_item sch item = Inr (failed_item item errorMessage))"
proof (cases "truthy (get_prop item P_success)
    \<and> truthy (get_prop (get_prop item P_result) P_response)")
  case True
  show ?thesis
  proof (cases "fillMissingFields sch (get_prop (get_prop item P_result) P_response)")
    case (Inl e)
    with assms(2) obtain msg where "error_message e = Text msg" by blast
    with True Inl assms(1) have "process_item sch item
        = Inr (failed_item item (JStr (''Schema validation failed: '' @ msg)))"
      by (simp add: process_item_def)
    then show ?thesis by blast
  next
    case (Inr filled)
    with True assms(1) show ?thesis by (simp add: process_item_def)
  qed
next
  case False
  with assms(1) have "process_item sch item
      = Inr (failed_item item
               (if truthy (get_prop item P_error) then get_prop item P_error
                else JStr ''AI processing failed or result structure invalid.''))"
    by (auto simp: process_item_def)
  then show ?thesis by blast
qed

lemma failed_item_shape:
  "get_prop (failed_item item errorMessage) P_success = JBool False
   \<and> get_prop (failed_item item errorMessage) P_error = errorMessage
   \<and> get_prop (get_prop (get_prop (failed_item item errorMessage) P_result) P_response) P_error
       = errorMessage"
  by (simp add: failed_item_def get_prop_def own_value_def own_set_def update_conv')

lemma poll_passes_through:
  assumes "requestId \<noteq> []"
    and "ai_run t lg (PollRequest modelName requestId) = Resolves response"
    and "\<not> is_nullish response" and "get_prop response P_status \<noteq> JStr ''completed''"
  shows "pollBatchAnalysisStatus t modelName requestId sch lg
           = (Inr response, lg @ [PollRequest modelName requestId])"
  using assms by (simp add: pollBatchAnalysisStatus_def)

lemma poll_isolates_items:
  assumes "requestId \<noteq> []"
    and "ai_run t lg (PollRequest modelName requestId) = Resolves response"
    and "get_prop response P_status = JStr ''completed''"
    and "get_prop response P_responses = JArr items"
    and "\<forall>item \<in> set items. \<exists>y. process_item sch item = Inr y"
  shows "\<exists>processed.
      pollBatchAnalysisStatus t modelName requestId sch lg
        = (Inr (JObj (own_set (own_set (own_props response) ''responses'' (JArr processed))
                        ''status'' (JStr ''completed''))),
           lg @ [PollRequest modelName requestId])
      \<and> length processed = length items
      \<and> (\<forall>i < length items. process_item sch (items ! i) = Inr (processed ! i))"
proof -
  have nn: "\<not> is_nullish response"
    using assms(3) by (auto simp: is_nullish_def get_prop_def own_value_def)
  from promise_all_Inr [OF assms(5)] obtain processed where
    p: "promise_all (map (process_item sch) items) = Inr processed"
      "length processed = length items"
      "\<forall>i < length items. process_item sch (items ! i) = Inr (processed ! i)"
    by blast
  have "pollBatchAnalysisStatus t modelName requestId sch lg
        = (Inr (JObj (own_set (own_set (own_props response) ''responses'' (JArr processed))
                        ''status'' (JStr ''completed''))),
           lg @ [PollRequest modelName requestId])"
    using assms(1-4) nn p(1) by (simp add: pollBatchAnalysisStatus_def)
  with p(2,3) show ?thesis by blast
qed

text \<open>
  C8. The callback reads \<^verbatim>\<open>item.success\<close> without a guard. A completed batch whose
  second item is \<^verbatim>\<open>null\<close> makes the callback throw a TypeError, and the whole poll
  is rejected: no status is returned and the first item, which is sound, is lost with it.
  The same batch with \<^verbatim>\<open>{success: false}\<close> in place of \<^verbatim>\<open>null\<close> is returned
  as \<^verbatim>\<open>completed\<close>, the first item repaired and the second in the failed shape.
\<close>

theorem poll_null_item_rejects_batch:
  "pollBatchAnalysisStatus
       (test_tool 5 [Resolves (JObj [(''status'', JStr ''completed''),
          (''responses'', JArr [
             JObj [(''success'', JBool True),
                   (''result'', JObj [(''response'', JObj [(''name'', JStr ''a'')])])],
             JNull])])])
       ''m'' ''req1'' name_tags_schema []
     = (Inl (read_of_nullish JNull ''success''), [PollRequest ''m'' ''req1''])
   \<and> pollBatchAnalysisStatus
       (test_tool 5 [Resolves (JObj [(''status'', JStr ''completed''),
          (''responses'', JArr [
             JObj [(''success'', JBool True),
                   (''result'', JObj [(''response'', JObj [(''name'', JStr ''a'')])])],
             JObj [(''success'', JBool False)]])])])
       ''m'' ''req1'' name_tags_schema []
     = (Inr (JObj [(''status'', JStr ''completed''),
          (''responses'', JArr [
             JObj [(''success'', JBool True),
                   (''result'', JObj [(''response'',
                      JObj [(''name'', JStr ''a''), (''tags'', JArr [])])])],
             JObj [(''success'', JBool False),
                   (''error'', JStr ''AI processing failed or result structure invalid.''),
                   (''result'', JObj [(''response'', JObj [(''error'',
                      JStr ''AI processing failed or result structure invalid.'')])])]])]),
        [PollRequest ''m'' ''req1''])"
  by code_simp

end
